theory Spec2Isabelle
  imports Complex_Main "HOL-Library.Sublist"
begin

section \<open>Errors\<close>

text \<open>
  Go's \<open>error\<close> values, one constructor per site of the source that creates one.
  An error that the source passes on unchanged from a collaborator keeps the collaborator's
  value and is tagged with the place it came through (\<open>PolicyError\<close>, \<open>BackendFailure\<close>);
  \<open>Opaque\<close> is an error of an external system (database, key/value store, JSON decoder),
  known only by its message. \<open>Error\<close> is the method \<open>err.Error()\<close>.
\<close>

datatype error =
    EmptyPrompt
  | PolicyError error
  | ProviderNotRegistered string
  | BackendFailure error
  | EmptyQuestion
  | NoJSONFound
  | InvalidJSONStructure
  | MissingSessionID
  | SessionNotFound
  | EmptyQuery
  | EmptyText
  | MissingDocumentID
  | MissingEmbeddingVector
  | EmptyQueryVector
  | Opaque string

fun Error :: "error \<Rightarrow> string" where
  "Error EmptyPrompt = ''empty prompt''"
| "Error (PolicyError e) = Error e"
| "Error (ProviderNotRegistered providerName) = ''llm provider not registered: '' @ providerName"
| "Error (BackendFailure e) = Error e"
| "Error EmptyQuestion = ''empty question''"
| "Error NoJSONFound = ''no json found in llm output''"
| "Error InvalidJSONStructure = ''invalid json structure''"
| "Error MissingSessionID = ''missing session id''"
| "Error SessionNotFound = ''session not found''"
| "Error EmptyQuery = ''empty query''"
| "Error EmptyText = ''empty text''"
| "Error MissingDocumentID = ''missing document id''"
| "Error MissingEmbeddingVector = ''missing embedding vector''"
| "Error EmptyQueryVector = ''empty query vector''"
| "Error (Opaque msg) = msg"

section \<open>Generation engine (internal/modules/llm/engine.go)\<close>

subsection \<open>Modes, requests, responses\<close>

text \<open>\<open>type Mode string\<close>: any string is a mode, five of them are named.\<close>

type_synonym Mode = string

definition ModeReasoning :: Mode where "ModeReasoning = ''reasoning''"
definition ModeAnalysis :: Mode where "ModeAnalysis = ''analysis''"
definition ModeDiagnosis :: Mode where "ModeDiagnosis = ''diagnosis''"
definition ModePlanning :: Mode where "ModePlanning = ''planning''"
definition ModeDefault :: Mode where "ModeDefault = ''default''"

text \<open>
  Strings are byte strings, so \<open>length\<close> is Go's \<open>len\<close>. The floating-point fields
  (temperature, confidence, embedding components) are only ever set from literals or
  passed on, and are modelled by the reals those literals denote. Durations and clock
  readings are integers (nanoseconds).
\<close>

record Request =
  Req_Mode :: Mode
  Req_Prompt :: string
  Req_Temperature :: real
  Req_MaxTokens :: int
  Req_Metadata :: "string \<rightharpoonup> string"

record Response =
  Resp_Text :: string
  Resp_Tokens :: int
  Resp_Latency :: int
  Resp_Provider :: string
  Resp_Model :: string
  Resp_Confidence :: real

definition Response_zero :: Response where
  "Response_zero = \<lparr>Resp_Text = [], Resp_Tokens = 0, Resp_Latency = 0, Resp_Provider = [],
     Resp_Model = [], Resp_Confidence = 0\<rparr>"

record ProviderRequest =
  PReq_Prompt :: string
  PReq_Temperature :: real
  PReq_MaxTokens :: int
  PReq_Model :: string

record ProviderResponse =
  PResp_Text :: string
  PResp_Tokens :: int
  PResp_Model :: string
  PResp_Metadata :: "string \<rightharpoonup> string"

text \<open>
  The \<open>Provider\<close> interface. A back end is an external system: its \<open>Generate\<close> may read
  and change the world \<open>'w\<close> (everything outside the process: remote models, databases,
  the clock) and may fail.
\<close>

record 'w Provider =
  Provider_Name :: string
  Provider_Generate :: "ProviderRequest \<Rightarrow> 'w \<Rightarrow> (error + ProviderResponse) \<times> 'w"

text \<open>The standard library's clock: \<open>time.Now()\<close> and \<open>Time.Format(layout)\<close>.\<close>

record 'w Clock =
  Now :: "'w \<Rightarrow> int"
  Format :: "int \<Rightarrow> string"

subsection \<open>Policy engine\<close>

text \<open>\<open>PolicyEngine\<close> is an empty struct; its methods do not use the receiver.\<close>

definition SelectProvider :: "Mode \<Rightarrow> string \<times> error option" where
  "SelectProvider mode =
     (if mode = ModeReasoning then (''primary'', None)
      else if mode = ModeAnalysis then (''primary'', None)
      else if mode = ModeDiagnosis then (''primary'', None)
      else if mode = ModePlanning then (''primary'', None)
      else (''primary'', None))"

definition EstimateConfidence :: "Mode \<Rightarrow> string \<Rightarrow> real" where
  "EstimateConfidence mode text =
     (let l = int (length text) in
      if l > 1500 then 0.95
      else if l > 800 then 0.85
      else if l > 300 then 0.7
      else 0.5)"

subsection \<open>Engine\<close>

record 'w Engine =
  providers :: "string \<rightharpoonup> 'w Provider"
  modelMap :: "Mode \<rightharpoonup> string"

text \<open>Reading a Go map of strings: an absent key reads as the empty string.\<close>

definition map_get :: "('k \<rightharpoonup> string) \<Rightarrow> 'k \<Rightarrow> string" where
  "map_get m k = (case m k of None \<Rightarrow> [] | Some v \<Rightarrow> v)"

definition NewEngine :: "'w Engine" where
  "NewEngine = \<lparr>providers = Map.empty,
     modelMap = [ModeReasoning \<mapsto> ''reasoning-model'', ModeAnalysis \<mapsto> ''analysis-model'',
       ModeDiagnosis \<mapsto> ''diagnosis-model'', ModePlanning \<mapsto> ''planning-model'',
       ModeDefault \<mapsto> ''default-model'']\<rparr>"

definition RegisterProvider :: "'w Engine \<Rightarrow> 'w Provider \<Rightarrow> 'w Engine" where
  "RegisterProvider e p = e\<lparr>providers := (providers e)(Provider_Name p \<mapsto> p)\<rparr>"

text \<open>
  The request the engine hands to the back end: the mode default, the model routing and
  the max-token default of \<open>Generate\<close>, in the source's order.
\<close>

definition Engine_Generate ::
  "'w Clock \<Rightarrow> 'w Engine \<Rightarrow> Request \<Rightarrow> 'w \<Rightarrow> (error + Response) \<times> 'w" where
  "Engine_Generate clk e req0 w =
     (let start = Now clk w in
      if Req_Prompt req0 = [] then (Inl EmptyPrompt, w)
      else
        let req1 = (if Req_Mode req0 = [] then req0\<lparr>Req_Mode := ModeDefault\<rparr> else req0) in
        case SelectProvider (Req_Mode req1) of
          (providerName, Some err) \<Rightarrow> (Inl (PolicyError err), w)
        | (providerName, None) \<Rightarrow>
            (case providers e providerName of
               None \<Rightarrow> (Inl (ProviderNotRegistered providerName), w)
             | Some provider \<Rightarrow>
                 let model0 = map_get (modelMap e) (Req_Mode req1);
                     model = (if model0 = [] then map_get (modelMap e) ModeDefault else model0);
                     req2 = (if Req_MaxTokens req1 = 0 then req1\<lparr>Req_MaxTokens := 1024\<rparr>
                             else req1);
                     pReq = \<lparr>PReq_Prompt = Req_Prompt req2,
                             PReq_Temperature = Req_Temperature req2,
                             PReq_MaxTokens = Req_MaxTokens req2,
                             PReq_Model = model\<rparr>
                 in (case Provider_Generate provider pReq w of
                       (Inl err, w') \<Rightarrow> (Inl (BackendFailure err), w')
                     | (Inr pResp, w') \<Rightarrow>
                         (let latency = Now clk w' - start;
                              resp = \<lparr>Resp_Text = PResp_Text pResp,
                                      Resp_Tokens = PResp_Tokens pResp,
                                      Resp_Latency = latency,
                                      Resp_Provider = Provider_Name provider,
                                      Resp_Model = PResp_Model pResp,
                                      Resp_Confidence =
                                        EstimateConfidence (Req_Mode req2) (PResp_Text pResp)\<rparr>
                          in (Inr resp, w')))))"

text \<open>
  The request that reaches the back end as the specification words it: the prompt and
  temperature as given, max-tokens 1024 when zero, and the model of the mode (the mode
  \<open>default\<close> when unset), falling back to the default mode's model.
\<close>

definition dispatched :: "'w Engine \<Rightarrow> Request \<Rightarrow> ProviderRequest" where
  "dispatched e req =
     \<lparr>PReq_Prompt = Req_Prompt req,
      PReq_Temperature = Req_Temperature req,
      PReq_MaxTokens = (if Req_MaxTokens req = 0 then 1024 else Req_MaxTokens req),
      PReq_Model =
        (let mode = (if Req_Mode req = [] then ModeDefault else Req_Mode req) in
         if map_get (modelMap e) mode = [] then map_get (modelMap e) ModeDefault
         else map_get (modelMap e) mode)\<rparr>"

text \<open>
  The back-end stubs of the source (\<open>OpenAIProvider\<close>, \<open>OllamaProvider\<close>,
  \<open>LocalProvider\<close>) all register under the name \<open>primary\<close>, echo the prompt
  after a fixed banner and never fail.
\<close>

definition LocalProvider :: "'w Provider" where
  "LocalProvider = \<lparr>Provider_Name = ''primary'',
     Provider_Generate = (\<lambda>req w.
       (Inr \<lparr>PResp_Text = ''[LOCAL MODEL RESPONSE PLACEHOLDER]'' @ [CHR 0x0A] @ PReq_Prompt req,
             PResp_Tokens = 128, PResp_Model = PReq_Model req, PResp_Metadata = Map.empty\<rparr>, w))\<rparr>"

text \<open>A back end for examples that records what it is sent: the world is the list of
  the requests received so far, and the clock counts them.\<close>

definition RecordingProvider :: "(ProviderRequest list) Provider" where
  "RecordingProvider = \<lparr>Provider_Name = ''primary'',
     Provider_Generate = (\<lambda>req w.
       (Inr \<lparr>PResp_Text = ''{}'', PResp_Tokens = 1, PResp_Model = PReq_Model req,
             PResp_Metadata = Map.empty\<rparr>, w @ [req]))\<rparr>"

definition CallClock :: "(ProviderRequest list) Clock" where
  "CallClock = \<lparr>Now = (\<lambda>w. int (length w)), Format = (\<lambda>t. ''t'')\<rparr>"

text \<open>A clock for examples: the world is the current time.\<close>

definition WallClock :: "int Clock" where
  "WallClock = \<lparr>Now = (\<lambda>w. w), Format = (\<lambda>t. ''t'')\<rparr>"


section \<open>Vector store (internal/modules/vector/pgvector.go)\<close>

record Document =
  Doc_ID :: string
  Doc_Content :: string
  Doc_Vector :: "real list"
  Doc_Meta :: "string \<rightharpoonup> string"

text \<open>The \<open>Store\<close> interface: any implementation, acting on the world.\<close>

record 'w Store =
  Store_Init :: "'w \<Rightarrow> error option \<times> 'w"
  Store_Store :: "Document \<Rightarrow> 'w \<Rightarrow> error option \<times> 'w"
  Store_Search :: "real list \<Rightarrow> int \<Rightarrow> 'w \<Rightarrow> (error + Document list) \<times> 'w"
  Store_Delete :: "string \<Rightarrow> 'w \<Rightarrow> error option \<times> 'w"

text \<open>
  The database behind \<open>PgVectorStore\<close> is external. The statements the source sends are
  kept structured instead of as SQL text: the text that \<open>vectorToSQL\<close> and
  \<open>mapToJSON\<close> produce depends on the runtime's float formatting and map iteration
  order. \<open>Upsert\<close> is the \<open>INSERT ... ON CONFLICT (id) DO UPDATE\<close> statement with its
  table, id, content, embedding and metadata; \<open>SelectNearest\<close> is the
  \<open>SELECT ... ORDER BY embedding <-> v LIMIT n\<close> query. A query returns rows that are
  scanned one by one; a row whose \<open>Scan\<close> fails is \<open>Inl\<close>, a scanned row is its id,
  content and metadata bytes.
\<close>

datatype SqlStatement =
    CreateExtension
  | CreateTable string int
  | CreateIndex string
  | Upsert string string string "real list" "string \<rightharpoonup> string"
  | SelectNearest string "real list" int
  | DeleteByID string string

type_synonym ScanRow = "error + (string \<times> string \<times> string)"

record 'w SqlDB =
  ExecContext :: "SqlStatement \<Rightarrow> 'w \<Rightarrow> error option \<times> 'w"
  QueryContext :: "SqlStatement \<Rightarrow> 'w \<Rightarrow> (error + ScanRow list) \<times> 'w"

record 'w PgVectorStore =
  Pg_db :: "'w SqlDB"
  Pg_dimension :: int
  Pg_table :: string

definition NewPgVectorStore :: "'w SqlDB \<Rightarrow> int \<Rightarrow> 'w PgVectorStore" where
  "NewPgVectorStore db dimension =
     \<lparr>Pg_db = db, Pg_dimension = dimension, Pg_table = ''vector_memory''\<rparr>"

fun exec_all :: "'w SqlDB \<Rightarrow> SqlStatement list \<Rightarrow> 'w \<Rightarrow> error option \<times> 'w" where
  "exec_all db [] w = (None, w)"
| "exec_all db (q # queries) w =
     (case ExecContext db q w of
        (Some err, w') \<Rightarrow> (Some err, w')
      | (None, w') \<Rightarrow> exec_all db queries w')"

definition PgVectorStore_Init :: "'w PgVectorStore \<Rightarrow> 'w \<Rightarrow> error option \<times> 'w" where
  "PgVectorStore_Init p w =
     exec_all (Pg_db p)
       [CreateExtension, CreateTable (Pg_table p) (Pg_dimension p), CreateIndex (Pg_table p)] w"

definition PgVectorStore_Store :: "'w PgVectorStore \<Rightarrow> Document \<Rightarrow> 'w \<Rightarrow> error option \<times> 'w" where
  "PgVectorStore_Store p doc w =
     (if Doc_ID doc = [] then (Some MissingDocumentID, w)
      else if length (Doc_Vector doc) = 0 then (Some MissingEmbeddingVector, w)
      else ExecContext (Pg_db p)
             (Upsert (Pg_table p) (Doc_ID doc) (Doc_Content doc) (Doc_Vector doc) (Doc_Meta doc)) w)"

text \<open>\<open>strings.Trim\<close>, \<open>strings.Split\<close> and \<open>strings.SplitN(_, _, 2)\<close> for a
  one-byte ASCII separator, as \<open>jsonToMap\<close> uses them.\<close>

definition Trim :: "string \<Rightarrow> string \<Rightarrow> string" where
  "Trim s cutset =
     rev (dropWhile (\<lambda>c. c \<in> set cutset) (rev (dropWhile (\<lambda>c. c \<in> set cutset) s)))"

fun Split :: "string \<Rightarrow> char \<Rightarrow> string list" where
  "Split [] sep = [[]]"
| "Split (c # s) sep =
     (if c = sep then [] # Split s sep
      else (case Split s sep of [] \<Rightarrow> [[c]] | p # ps \<Rightarrow> (c # p) # ps))"

definition SplitN2 :: "string \<Rightarrow> char \<Rightarrow> string list" where
  "SplitN2 s sep =
     (if sep \<in> set s then [takeWhile (\<lambda>c. c \<noteq> sep) s, tl (dropWhile (\<lambda>c. c \<noteq> sep) s)]
      else [s])"

fun jsonToMap_parts :: "string list \<Rightarrow> (string \<rightharpoonup> string) \<Rightarrow> (string \<rightharpoonup> string)" where
  "jsonToMap_parts [] res = res"
| "jsonToMap_parts (p # parts) res =
     (case SplitN2 p (CHR '':'') of
        [k0, v0] \<Rightarrow> jsonToMap_parts parts (res(Trim k0 [CHR 0x22] \<mapsto> Trim v0 [CHR 0x22]))
      | _ \<Rightarrow> jsonToMap_parts parts res)"

definition jsonToMap :: "string \<Rightarrow> (string \<rightharpoonup> string)" where
  "jsonToMap b =
     (if length b = 0 then Map.empty
      else let s = Trim b ''{}'' in
        if s = [] then Map.empty
        else jsonToMap_parts (Split s (CHR '','')) Map.empty)"

text \<open>The \<open>rows.Next()\<close> loop of \<open>Search\<close>: the first failing \<open>Scan\<close> ends it.\<close>

fun scan_rows :: "ScanRow list \<Rightarrow> Document list \<Rightarrow> error + Document list" where
  "scan_rows [] results = Inr results"
| "scan_rows (Inl err # rows) results = Inl err"
| "scan_rows (Inr (ident, content, metaJSON) # rows) results =
     scan_rows rows
       (results @ [\<lparr>Doc_ID = ident, Doc_Content = content, Doc_Vector = [],
                    Doc_Meta = jsonToMap metaJSON\<rparr>])"

definition PgVectorStore_Search ::
  "'w PgVectorStore \<Rightarrow> real list \<Rightarrow> int \<Rightarrow> 'w \<Rightarrow> (error + Document list) \<times> 'w" where
  "PgVectorStore_Search p vec limit0 w =
     (if length vec = 0 then (Inl EmptyQueryVector, w)
      else
        let limit = (if limit0 \<le> 0 then 5 else limit0) in
        case QueryContext (Pg_db p) (SelectNearest (Pg_table p) vec limit) w of
          (Inl err, w') \<Rightarrow> (Inl err, w')
        | (Inr rows, w') \<Rightarrow> (scan_rows rows [], w'))"

definition PgVectorStore_Delete :: "'w PgVectorStore \<Rightarrow> string \<Rightarrow> 'w \<Rightarrow> error option \<times> 'w" where
  "PgVectorStore_Delete p ident w = ExecContext (Pg_db p) (DeleteByID (Pg_table p) ident) w"

text \<open>A \<open>*PgVectorStore\<close> used as a \<open>Store\<close>.\<close>

definition PgVectorStore_iface :: "'w PgVectorStore \<Rightarrow> 'w Store" where
  "PgVectorStore_iface p =
     \<lparr>Store_Init = PgVectorStore_Init p, Store_Store = PgVectorStore_Store p,
      Store_Search = PgVectorStore_Search p, Store_Delete = PgVectorStore_Delete p\<rparr>"


section \<open>Key/value store (internal/db/redis.go)\<close>

text \<open>
  \<open>RedisClient\<close> wraps an external client: \<open>Set(key, val, ttl)\<close> reports an error or
  none, \<open>Get(key)\<close> returns the value read together with an error or none (an absent key
  reads as the empty string with an error).
\<close>

record 'w RedisClient =
  Redis_Set :: "string \<Rightarrow> string \<Rightarrow> int \<Rightarrow> 'w \<Rightarrow> error option \<times> 'w"
  Redis_Get :: "string \<Rightarrow> 'w \<Rightarrow> (string \<times> error option) \<times> 'w"

definition Minute :: int where "Minute = 60 * 1000000000"
definition Hour :: int where "Hour = 60 * Minute"

section \<open>Manager (package llm)\<close>

record 'w Manager =
  Mgr_engine :: "'w Engine"
  Mgr_vector :: "'w Store option"
  Mgr_redis :: "'w RedisClient option"
  Mgr_model :: string
  Mgr_embed :: string
  Mgr_provider :: string

definition generateID :: "'w Clock \<Rightarrow> 'w \<Rightarrow> string" where
  "generateID clk w = Format clk (Now clk w)"

definition storeMemory ::
  "'w Clock \<Rightarrow> 'w Manager \<Rightarrow> Request \<Rightarrow> Response \<Rightarrow> 'w \<Rightarrow> error option \<times> 'w" where
  "storeMemory clk m req resp w =
     (let w1 = (case Mgr_redis m of
                  None \<Rightarrow> w
                | Some r \<Rightarrow> snd (Redis_Set r ''llm:last_response'' (Resp_Text resp) (30 * Minute) w));
          w2 = (case Mgr_vector m of
                  None \<Rightarrow> w1
                | Some v \<Rightarrow>
                    (let doc = \<lparr>Doc_ID = generateID clk w1, Doc_Content = Resp_Text resp,
                                Doc_Vector = [],
                                Doc_Meta = [''mode'' \<mapsto> Req_Mode req,
                                            ''provider'' \<mapsto> Resp_Provider resp,
                                            ''model'' \<mapsto> Resp_Model resp]\<rparr>
                     in snd (Store_Store v doc w1)))
      in (None, w2))"

definition Manager_Generate ::
  "'w Clock \<Rightarrow> 'w Manager \<Rightarrow> Request \<Rightarrow> 'w \<Rightarrow> (error + Response) \<times> 'w" where
  "Manager_Generate clk m req w =
     (case Engine_Generate clk (Mgr_engine m) req w of
        (Inl err, w') \<Rightarrow> (Inl err, w')
      | (Inr resp, w') \<Rightarrow> (Inr resp, snd (storeMemory clk m req resp w')))"

text \<open>The embedding stub: 384 components, component \<open>i\<close> is \<open>len(text) / (i + 1)\<close>.\<close>

definition Embed :: "string \<Rightarrow> error + real list" where
  "Embed text =
     (if text = [] then Inl EmptyText
      else Inr (map (\<lambda>i. real (length text) / real (i + 1)) [0..<384]))"

section \<open>Domain records (package types)\<close>

record FiveWhyStep =
  Step_Level :: int
  Step_Question :: string
  Step_Answer :: string
  Step_Analysis :: string

record RootCauseResult =
  RC_RootCause :: string
  RC_Confidence :: real
  RC_Evidence :: "string list"
  RC_Category :: string
  RC_ImpactScope :: string

record SolutionResult =
  Sol_Immediate :: "string list"
  Sol_Strategic :: "string list"
  Sol_Preventive :: "string list"
  Sol_Automation :: "string list"
  Sol_Owner :: string
  Sol_Complexity :: string
  Sol_TimeHorizon :: string

record ReframedQuestion =
  RQ_Original :: string
  RQ_Reframed :: string
  RQ_Intent :: string
  RQ_Goal :: string

text \<open>The zero values of \<open>var rootCause\<close>, \<open>var solution\<close>, \<open>var reframed\<close>.\<close>

definition RootCauseResult_zero :: RootCauseResult where
  "RootCauseResult_zero = \<lparr>RC_RootCause = [], RC_Confidence = 0, RC_Evidence = [],
     RC_Category = [], RC_ImpactScope = []\<rparr>"

definition SolutionResult_zero :: SolutionResult where
  "SolutionResult_zero = \<lparr>Sol_Immediate = [], Sol_Strategic = [], Sol_Preventive = [],
     Sol_Automation = [], Sol_Owner = [], Sol_Complexity = [], Sol_TimeHorizon = []\<rparr>"

definition ReframedQuestion_zero :: ReframedQuestion where
  "ReframedQuestion_zero = \<lparr>RQ_Original = [], RQ_Reframed = [], RQ_Intent = [], RQ_Goal = []\<rparr>"

section \<open>Session memory records (package chat)\<close>

record MemoryMessage =
  Msg_Role :: string
  Msg_Content :: string
  Msg_Timestamp :: int

record SessionMemory =
  SM_SessionID :: string
  SM_Messages :: "MemoryMessage list"
  SM_UpdatedAt :: int

definition SessionMemory_zero :: SessionMemory where
  "SessionMemory_zero = \<lparr>SM_SessionID = [], SM_Messages = [], SM_UpdatedAt = 0\<rparr>"

record RetrievedMemory =
  RM_Documents :: "Document list"
  RM_Context :: string

section \<open>The JSON codec (encoding/json)\<close>

text \<open>
  \<open>json.Unmarshal\<close> and \<open>json.Marshal\<close> are the standard library's and are taken as
  they come: one decoder per target type the source decodes into. A decoder gets the
  bytes and the target's value before the call, and gives the error (or none) and the
  target's value after it. \<open>Unmarshal_object\<close> is the decode into
  \<open>map[string]interface{}\<close>, of which the source uses only the error.
\<close>

record Json =
  Unmarshal_object :: "string \<Rightarrow> error option"
  Unmarshal_RootCause :: "string \<Rightarrow> RootCauseResult \<Rightarrow> error option \<times> RootCauseResult"
  Unmarshal_Solution :: "string \<Rightarrow> SolutionResult \<Rightarrow> error option \<times> SolutionResult"
  Unmarshal_Reframe :: "string \<Rightarrow> ReframedQuestion \<Rightarrow> error option \<times> ReframedQuestion"
  Unmarshal_Session :: "string \<Rightarrow> SessionMemory \<Rightarrow> error option \<times> SessionMemory"
  Marshal_Session :: "SessionMemory \<Rightarrow> string"
  Marshal_Messages :: "MemoryMessage list \<Rightarrow> string"


section \<open>Prompt builder (internal/modules/prompt/builder.go)\<close>

subsection \<open>The standard library's string functions\<close>

text \<open>
  \<open>strings.TrimSpace\<close> removes the leading and trailing white space runes of a UTF-8
  string: the six ASCII ones and the runes U+0085, U+00A0, U+1680, U+2000 to U+200A,
  U+2028, U+2029, U+202F, U+205F, U+3000, each recognised by its UTF-8 encoding. A byte
  sequence that is not one of these encodings decodes to a rune that is not white space.
\<close>

definition asciiSpace :: "char \<Rightarrow> bool" where
  "asciiSpace c = (c \<in> {CHR 0x09, CHR 0x0A, CHR 0x0B, CHR 0x0C, CHR 0x0D, CHR 0x20})"

definition spaceEncodings :: "string list" where
  "spaceEncodings =
     [[CHR 0xC2, CHR 0x85], [CHR 0xC2, CHR 0xA0], [CHR 0xE1, CHR 0x9A, CHR 0x80],
      [CHR 0xE2, CHR 0x80, CHR 0x80], [CHR 0xE2, CHR 0x80, CHR 0x81],
      [CHR 0xE2, CHR 0x80, CHR 0x82], [CHR 0xE2, CHR 0x80, CHR 0x83],
      [CHR 0xE2, CHR 0x80, CHR 0x84], [CHR 0xE2, CHR 0x80, CHR 0x85],
      [CHR 0xE2, CHR 0x80, CHR 0x86], [CHR 0xE2, CHR 0x80, CHR 0x87],
      [CHR 0xE2, CHR 0x80, CHR 0x88], [CHR 0xE2, CHR 0x80, CHR 0x89],
      [CHR 0xE2, CHR 0x80, CHR 0x8A], [CHR 0xE2, CHR 0x80, CHR 0xA8],
      [CHR 0xE2, CHR 0x80, CHR 0xA9], [CHR 0xE2, CHR 0x80, CHR 0xAF],
      [CHR 0xE2, CHR 0x81, CHR 0x9F], [CHR 0xE3, CHR 0x80, CHR 0x80]]"

text \<open>The number of bytes of the white space rune that \<open>s\<close> starts (ends) with, 0 if
  it starts (ends) with none.\<close>

definition leadingSpace :: "string \<Rightarrow> nat" where
  "leadingSpace s =
     (case s of
        [] \<Rightarrow> 0
      | c # _ \<Rightarrow>
          if asciiSpace c then 1
          else (case find (\<lambda>enc. prefix enc s) spaceEncodings of
                  None \<Rightarrow> 0 | Some enc \<Rightarrow> length enc))"

definition trailingSpace :: "string \<Rightarrow> nat" where
  "trailingSpace s =
     (if s = [] then 0
      else if asciiSpace (last s) then 1
      else (case find (\<lambda>enc. suffix enc s) spaceEncodings of
              None \<Rightarrow> 0 | Some enc \<Rightarrow> length enc))"

function TrimLeftSpace :: "string \<Rightarrow> string" where
  "TrimLeftSpace s =
     (if leadingSpace s = 0 then s else TrimLeftSpace (drop (leadingSpace s) s))"
  by pat_completeness auto
termination
  by (relation "measure length") (auto simp: leadingSpace_def split: list.splits)

function TrimRightSpace :: "string \<Rightarrow> string" where
  "TrimRightSpace s =
     (if trailingSpace s = 0 then s else TrimRightSpace (take (length s - trailingSpace s) s))"
  by pat_completeness auto
termination
  by (relation "measure length") (auto simp: trailingSpace_def split: if_splits)

definition TrimSpace :: "string \<Rightarrow> string" where
  "TrimSpace s = TrimRightSpace (TrimLeftSpace s)"

text \<open>\<open>strings.Index\<close> and \<open>strings.LastIndex\<close>: the byte offset of the first (last)
  occurrence of \<open>sub\<close> in \<open>s\<close>, or \<open>-1\<close>.\<close>

fun index_from :: "string \<Rightarrow> string \<Rightarrow> int \<Rightarrow> int" where
  "index_from [] sub i = (if sub = [] then i else - 1)"
| "index_from (c # s) sub i = (if prefix sub (c # s) then i else index_from s sub (i + 1))"

definition Index :: "string \<Rightarrow> string \<Rightarrow> int" where
  "Index s sub = index_from s sub 0"

fun last_index_from :: "string \<Rightarrow> string \<Rightarrow> int \<Rightarrow> int \<Rightarrow> int" where
  "last_index_from [] sub i best = (if sub = [] then i else best)"
| "last_index_from (c # s) sub i best =
     last_index_from s sub (i + 1) (if prefix sub (c # s) then i else best)"

definition LastIndex :: "string \<Rightarrow> string \<Rightarrow> int" where
  "LastIndex s sub = last_index_from s sub 0 (- 1)"

text \<open>The slice expression \<open>s[lo:hi]\<close>, for \<open>0 \<le> lo \<le> hi \<le> len(s)\<close> (outside this
  range Go panics; the one slice expression of the source is within it, see
  \<open>extractJSON_in_range\<close>).\<close>

definition slice :: "string \<Rightarrow> int \<Rightarrow> int \<Rightarrow> string" where
  "slice s lo hi = take (nat (hi - lo)) (drop (nat lo) s)"

text \<open>
  The specification's words for the extraction: the first \<open>{\<close> and the last \<open>}\<close> of
  a string, as positions. \<open>firstBrace t i\<close>: position \<open>i\<close> holds the first \<open>{\<close> of
  \<open>t\<close>; \<open>lastBrace t j\<close>: position \<open>j\<close> holds its last \<open>}\<close>. \<open>firstOcc\<close> and
  \<open>lastOcc\<close> compute the first and last position of a byte that occurs.
\<close>

definition firstBrace :: "string \<Rightarrow> nat \<Rightarrow> bool" where
  "firstBrace t i = (i < length t \<and> t ! i = CHR ''{'' \<and> (\<forall>k<i. t ! k \<noteq> CHR ''{''))"

definition lastBrace :: "string \<Rightarrow> nat \<Rightarrow> bool" where
  "lastBrace t j =
     (j < length t \<and> t ! j = CHR ''}'' \<and> (\<forall>k. j < k \<longrightarrow> k < length t \<longrightarrow> t ! k \<noteq> CHR ''}''))"

definition firstOcc :: "char \<Rightarrow> string \<Rightarrow> nat" where
  "firstOcc c t = length (takeWhile (\<lambda>x. x \<noteq> c) t)"

definition lastOcc :: "char \<Rightarrow> string \<Rightarrow> nat" where
  "lastOcc c t = length t - 1 - length (takeWhile (\<lambda>x. x \<noteq> c) (rev t))"

subsection \<open>Parsers\<close>

definition extractJSON :: "Json \<Rightarrow> string \<Rightarrow> error + string" where
  "extractJSON json raw0 =
     (let raw = TrimSpace raw0;
          start = Index raw ''{'';
          end = LastIndex raw ''}''
      in if start = - 1 \<or> end = - 1 \<or> end \<le> start then Inl NoJSONFound
         else
           let jsonStr = slice raw start (end + 1) in
           case Unmarshal_object json jsonStr of
             Some err \<Rightarrow> Inl InvalidJSONStructure
           | None \<Rightarrow> Inr jsonStr)"

definition ParseRootCause ::
  "Json \<Rightarrow> string \<Rightarrow> RootCauseResult \<Rightarrow> error option \<times> RootCauseResult" where
  "ParseRootCause json raw out =
     (case extractJSON json raw of
        Inl err \<Rightarrow> (Some err, out)
      | Inr jsonStr \<Rightarrow> Unmarshal_RootCause json jsonStr out)"

definition ParseSolution ::
  "Json \<Rightarrow> string \<Rightarrow> SolutionResult \<Rightarrow> error option \<times> SolutionResult" where
  "ParseSolution json raw out =
     (case extractJSON json raw of
        Inl err \<Rightarrow> (Some err, out)
      | Inr jsonStr \<Rightarrow> Unmarshal_Solution json jsonStr out)"

definition ParseReframe ::
  "Json \<Rightarrow> string \<Rightarrow> ReframedQuestion \<Rightarrow> error option \<times> ReframedQuestion" where
  "ParseReframe json raw out =
     (case extractJSON json raw of
        Inl err \<Rightarrow> (Some err, out)
      | Inr jsonStr \<Rightarrow> Unmarshal_Reframe json jsonStr out)"


subsection \<open>Template builders\<close>

text \<open>
  The six template texts are constants of the source, named here; \<open>text/template\<close> is
  external, so \<open>render\<close> is a parameter: it gets the template and the data map.
  \<open>decimal\<close> is the \<open>%d\<close> of \<open>fmt.Sprintf\<close>.
\<close>

datatype Template =
    FiveWhyTemplate | EvaluationTemplate | NextWhyTemplate
  | RootCauseTemplate | SolutionTemplate | ReframeTemplate

datatype TemplateValue = IntValue int | StringValue string

type_synonym Renderer = "Template \<Rightarrow> (string \<rightharpoonup> TemplateValue) \<Rightarrow> string"

function decimal_nat :: "nat \<Rightarrow> string" where
  "decimal_nat n =
     (if n < 10 then [char_of (48 + n)]
      else decimal_nat (n div 10) @ [char_of (48 + n mod 10)])"
  by pat_completeness auto
termination
  by (relation "measure (\<lambda>n. n)") auto

definition decimal :: "int \<Rightarrow> string" where
  "decimal i = (if i < 0 then CHR ''-'' # decimal_nat (nat (- i)) else decimal_nat (nat i))"

definition BuildFiveWhyPrompt :: "Renderer \<Rightarrow> int \<Rightarrow> string \<Rightarrow> string" where
  "BuildFiveWhyPrompt render level question =
     render FiveWhyTemplate [''Level'' \<mapsto> IntValue level, ''Question'' \<mapsto> StringValue question]"

definition BuildEvaluationPrompt :: "Renderer \<Rightarrow> string \<Rightarrow> string \<Rightarrow> string" where
  "BuildEvaluationPrompt render question answer =
     render EvaluationTemplate
       [''Question'' \<mapsto> StringValue question, ''Answer'' \<mapsto> StringValue answer]"

definition BuildNextWhyPrompt :: "Renderer \<Rightarrow> string \<Rightarrow> string" where
  "BuildNextWhyPrompt render answer =
     render NextWhyTemplate [''Answer'' \<mapsto> StringValue answer]"

definition BuildRootCausePrompt :: "Renderer \<Rightarrow> FiveWhyStep list \<Rightarrow> string" where
  "BuildRootCausePrompt render steps =
     (let chain = foldl (\<lambda>acc s. acc @ ''WHY '' @ decimal (Step_Level s) @ '':'' @ [CHR 0x0A]
                          @ ''Q: '' @ Step_Question s @ [CHR 0x0A]
                          @ ''A: '' @ Step_Answer s @ [CHR 0x0A]
                          @ ''ANALYSIS: '' @ Step_Analysis s @ [CHR 0x0A, CHR 0x0A]) [] steps
      in render RootCauseTemplate [''Chain'' \<mapsto> StringValue chain])"

definition BuildSolutionPrompt ::
  "Renderer \<Rightarrow> RootCauseResult \<Rightarrow> FiveWhyStep list \<Rightarrow> string" where
  "BuildSolutionPrompt render rc steps =
     (let ev = foldl (\<lambda>acc s. acc @ ''- '' @ Step_Analysis s @ [CHR 0x0A]) [] steps
      in render SolutionTemplate
           [''RootCause'' \<mapsto> StringValue (RC_RootCause rc), ''Evidence'' \<mapsto> StringValue ev])"

definition BuildReframePrompt :: "Renderer \<Rightarrow> string \<Rightarrow> RootCauseResult \<Rightarrow> string" where
  "BuildReframePrompt render original rc =
     render ReframeTemplate
       [''Original'' \<mapsto> StringValue original, ''RootCause'' \<mapsto> StringValue (RC_RootCause rc)]"

text \<open>The \<open>Builder\<close> interface, and \<open>*PromptBuilder\<close> as its implementation.\<close>

record Builder =
  B_BuildFiveWhyPrompt :: "int \<Rightarrow> string \<Rightarrow> string"
  B_BuildEvaluationPrompt :: "string \<Rightarrow> string \<Rightarrow> string"
  B_BuildNextWhyPrompt :: "string \<Rightarrow> string"
  B_BuildRootCausePrompt :: "FiveWhyStep list \<Rightarrow> string"
  B_BuildSolutionPrompt :: "RootCauseResult \<Rightarrow> FiveWhyStep list \<Rightarrow> string"
  B_BuildReframePrompt :: "string \<Rightarrow> RootCauseResult \<Rightarrow> string"
  B_ParseRootCause :: "string \<Rightarrow> RootCauseResult \<Rightarrow> error option \<times> RootCauseResult"
  B_ParseSolution :: "string \<Rightarrow> SolutionResult \<Rightarrow> error option \<times> SolutionResult"
  B_ParseReframe :: "string \<Rightarrow> ReframedQuestion \<Rightarrow> error option \<times> ReframedQuestion"

definition NewBuilder :: "Json \<Rightarrow> Renderer \<Rightarrow> Builder" where
  "NewBuilder json render =
     \<lparr>B_BuildFiveWhyPrompt = BuildFiveWhyPrompt render,
      B_BuildEvaluationPrompt = BuildEvaluationPrompt render,
      B_BuildNextWhyPrompt = BuildNextWhyPrompt render,
      B_BuildRootCausePrompt = BuildRootCausePrompt render,
      B_BuildSolutionPrompt = BuildSolutionPrompt render,
      B_BuildReframePrompt = BuildReframePrompt render,
      B_ParseRootCause = ParseRootCause json,
      B_ParseSolution = ParseSolution json,
      B_ParseReframe = ParseReframe json\<rparr>"

section \<open>Orchestrator (internal/modules/chat/orchestrator.go)\<close>

record FiveWhySession =
  Sess_SessionID :: string
  Sess_Steps :: "FiveWhyStep list"
  Sess_RootCause :: RootCauseResult
  Sess_Solution :: SolutionResult
  Sess_Reframed :: ReframedQuestion
  Sess_CreatedAt :: int

text \<open>The collaborators are the values \<open>NewOrchestrator\<close> is given; they are taken to
  be present (not nil).\<close>

record 'w Orchestrator =
  Orch_llm :: "'w Manager"
  Orch_vector :: "'w Store"
  Orch_prompt :: Builder

definition NewOrchestrator :: "'w Manager \<Rightarrow> 'w Store \<Rightarrow> Builder \<Rightarrow> 'w Orchestrator" where
  "NewOrchestrator llmMgr vstore pb = \<lparr>Orch_llm = llmMgr, Orch_vector = vstore, Orch_prompt = pb\<rparr>"

text \<open>The literal \<open>llm.Request{Mode: mode, Prompt: prompt}\<close>: the other fields are zero.\<close>

definition mkRequest :: "Mode \<Rightarrow> string \<Rightarrow> Request" where
  "mkRequest mode prompt =
     \<lparr>Req_Mode = mode, Req_Prompt = prompt, Req_Temperature = 0, Req_MaxTokens = 0,
      Req_Metadata = Map.empty\<rparr>"

text \<open>The loop \<open>for i := 1; i <= 5; i++\<close>, from its state at the head of iteration
  \<open>i\<close>: the current question and the session built so far. An error leaves the loop
  and the function.\<close>

function why_loop ::
  "'w Clock \<Rightarrow> 'w Orchestrator \<Rightarrow> int \<Rightarrow> string \<Rightarrow> FiveWhySession \<Rightarrow> 'w
     \<Rightarrow> (error + string \<times> FiveWhySession) \<times> 'w" where
  "why_loop clk orch i currentQuestion session w =
     (if i \<le> 5 then
        (let whyPrompt = B_BuildFiveWhyPrompt (Orch_prompt orch) i currentQuestion in
         case Manager_Generate clk (Orch_llm orch) (mkRequest ModeReasoning whyPrompt) w of
           (Inl err, w1) \<Rightarrow> (Inl err, w1)
         | (Inr resp, w1) \<Rightarrow>
             (let analysisPrompt =
                    B_BuildEvaluationPrompt (Orch_prompt orch) currentQuestion (Resp_Text resp) in
              case Manager_Generate clk (Orch_llm orch) (mkRequest ModeAnalysis analysisPrompt) w1 of
                (Inl err, w2) \<Rightarrow> (Inl err, w2)
              | (Inr analysisResp, w2) \<Rightarrow>
                  (let step = \<lparr>Step_Level = i, Step_Question = currentQuestion,
                               Step_Answer = Resp_Text resp,
                               Step_Analysis = Resp_Text analysisResp\<rparr>;
                       session' = session\<lparr>Sess_Steps := Sess_Steps session @ [step]\<rparr>;
                       nextWhyPrompt = B_BuildNextWhyPrompt (Orch_prompt orch) (Resp_Text resp) in
                   case Manager_Generate clk (Orch_llm orch)
                          (mkRequest ModeReasoning nextWhyPrompt) w2 of
                     (Inl err, w3) \<Rightarrow> (Inl err, w3)
                   | (Inr nextResp, w3) \<Rightarrow>
                       why_loop clk orch (i + 1) (Resp_Text nextResp) session' w3)))
      else (Inr (currentQuestion, session), w))"
  by pat_completeness auto
termination
  by (relation "measure (\<lambda>(clk, orch, i, currentQuestion, session, w). nat (6 - i))") auto

declare why_loop.simps [simp del]


text \<open>
  \<open>RunFiveWhy\<close> returns Go's pair \<open>(*FiveWhySession, error)\<close>, each component nil or
  not, next to the world it leaves. \<open>orReturn\<close> is the source's
  \<open>if err != nil { return nil, err }\<close> after a call; \<open>parsed\<close> reads the result of a
  \<open>Parse...\<close> call on a fresh variable as such a call.
\<close>

type_synonym 'w FiveWhyResult = "(FiveWhySession option \<times> error option) \<times> 'w"

definition orReturn ::
  "('w \<Rightarrow> (error + 'a) \<times> 'w) \<Rightarrow> ('a \<Rightarrow> 'w \<Rightarrow> 'w FiveWhyResult) \<Rightarrow> 'w \<Rightarrow> 'w FiveWhyResult" where
  "orReturn call rest w =
     (case call w of
        (Inl err, w') \<Rightarrow> ((None, Some err), w')
      | (Inr x, w') \<Rightarrow> rest x w')"

definition parsed :: "error option \<times> 'a \<Rightarrow> 'w \<Rightarrow> (error + 'a) \<times> 'w" where
  "parsed r w = (case r of (Some err, out) \<Rightarrow> (Inl err, w) | (None, out) \<Rightarrow> (Inr out, w))"

text \<open>The three documents of the memory-storage block. The literals set no \<open>Vector\<close>.\<close>

definition questionDocument :: "string \<Rightarrow> string \<Rightarrow> Document" where
  "questionDocument sessionID userQuestion =
     \<lparr>Doc_ID = sessionID, Doc_Content = userQuestion, Doc_Vector = [],
      Doc_Meta = [''type'' \<mapsto> ''question'']\<rparr>"

definition rootCauseDocument :: "string \<Rightarrow> RootCauseResult \<Rightarrow> Document" where
  "rootCauseDocument sessionID rootCause =
     \<lparr>Doc_ID = sessionID @ ''_rca'', Doc_Content = RC_RootCause rootCause, Doc_Vector = [],
      Doc_Meta = [''type'' \<mapsto> ''root_cause'']\<rparr>"

definition solutionDocument :: "string \<Rightarrow> Response \<Rightarrow> Document" where
  "solutionDocument sessionID solResp =
     \<lparr>Doc_ID = sessionID @ ''_solution'', Doc_Content = Resp_Text solResp, Doc_Vector = [],
      Doc_Meta = [''type'' \<mapsto> ''solution'']\<rparr>"

text \<open>
  The body of \<open>RunFiveWhy\<close>, block by block as the source's comments divide it, last
  block first: each block is given what the blocks before it have bound and runs the
  rest of the function.
\<close>

text \<open>MEMORY STORAGE (VECTOR DB): three \<open>Store\<close> calls, the error of each discarded.\<close>

definition memoryStorage ::
  "'w Orchestrator \<Rightarrow> string \<Rightarrow> string \<Rightarrow> RootCauseResult \<Rightarrow> Response \<Rightarrow> 'w \<Rightarrow> 'w" where
  "memoryStorage orch sessionID userQuestion rootCause solResp w6 =
     (let w7 = snd (Store_Store (Orch_vector orch) (questionDocument sessionID userQuestion) w6);
          w8 = snd (Store_Store (Orch_vector orch) (rootCauseDocument sessionID rootCause) w7);
          w9 = snd (Store_Store (Orch_vector orch) (solutionDocument sessionID solResp) w8)
      in w9)"

text \<open>QUESTION REFRAMING, then the storage block and \<open>return session, nil\<close>.\<close>

definition questionReframing ::
  "'w Clock \<Rightarrow> 'w Orchestrator \<Rightarrow> string \<Rightarrow> string \<Rightarrow> FiveWhySession \<Rightarrow> RootCauseResult
     \<Rightarrow> Response \<Rightarrow> 'w \<Rightarrow> 'w FiveWhyResult" where
  "questionReframing clk orch sessionID userQuestion session rootCause solResp =
     orReturn (Manager_Generate clk (Orch_llm orch)
                 (mkRequest ModeReasoning
                    (B_BuildReframePrompt (Orch_prompt orch) userQuestion rootCause)))
       (\<lambda>reframeResp.
     orReturn (parsed (B_ParseReframe (Orch_prompt orch) (Resp_Text reframeResp)
                         ReframedQuestion_zero))
       (\<lambda>reframed w6.
          ((Some (session\<lparr>Sess_Reframed := reframed\<rparr>), None),
           memoryStorage orch sessionID userQuestion rootCause solResp w6)))"

text \<open>SOLUTION SYNTHESIS.\<close>

definition solutionSynthesis ::
  "'w Clock \<Rightarrow> 'w Orchestrator \<Rightarrow> string \<Rightarrow> string \<Rightarrow> FiveWhySession \<Rightarrow> RootCauseResult
     \<Rightarrow> 'w \<Rightarrow> 'w FiveWhyResult" where
  "solutionSynthesis clk orch sessionID userQuestion session rootCause =
     orReturn (Manager_Generate clk (Orch_llm orch)
                 (mkRequest ModePlanning
                    (B_BuildSolutionPrompt (Orch_prompt orch) rootCause (Sess_Steps session))))
       (\<lambda>solResp.
     orReturn (parsed (B_ParseSolution (Orch_prompt orch) (Resp_Text solResp) SolutionResult_zero))
       (\<lambda>solution.
          questionReframing clk orch sessionID userQuestion
            (session\<lparr>Sess_Solution := solution\<rparr>) rootCause solResp))"

text \<open>ROOT CAUSE EXTRACTION.\<close>

definition rootCauseExtraction ::
  "'w Clock \<Rightarrow> 'w Orchestrator \<Rightarrow> string \<Rightarrow> string \<Rightarrow> FiveWhySession \<Rightarrow> 'w
     \<Rightarrow> 'w FiveWhyResult" where
  "rootCauseExtraction clk orch sessionID userQuestion session =
     orReturn (Manager_Generate clk (Orch_llm orch)
                 (mkRequest ModeDiagnosis
                    (B_BuildRootCausePrompt (Orch_prompt orch) (Sess_Steps session))))
       (\<lambda>rcaResp.
     orReturn (parsed (B_ParseRootCause (Orch_prompt orch) (Resp_Text rcaResp)
                         RootCauseResult_zero))
       (\<lambda>rootCause.
          solutionSynthesis clk orch sessionID userQuestion
            (session\<lparr>Sess_RootCause := rootCause\<rparr>) rootCause))"

text \<open>The function: the guard, the fresh session, the loop, then the blocks above.\<close>

definition RunFiveWhy ::
  "'w Clock \<Rightarrow> 'w Orchestrator \<Rightarrow> string \<Rightarrow> string \<Rightarrow> 'w \<Rightarrow> 'w FiveWhyResult" where
  "RunFiveWhy clk orch sessionID userQuestion w =
     (if userQuestion = [] then ((None, Some EmptyQuestion), w)
      else
        (let session0 = \<lparr>Sess_SessionID = sessionID, Sess_Steps = [],
                         Sess_RootCause = RootCauseResult_zero,
                         Sess_Solution = SolutionResult_zero,
                         Sess_Reframed = ReframedQuestion_zero,
                         Sess_CreatedAt = Now clk w\<rparr>
         in orReturn (why_loop clk orch 1 userQuestion session0)
              (\<lambda>(currentQuestion, session).
                 rootCauseExtraction clk orch sessionID userQuestion session) w))"

definition ExtractRootCause ::
  "'w Clock \<Rightarrow> 'w Orchestrator \<Rightarrow> FiveWhyStep list \<Rightarrow> 'w
     \<Rightarrow> (RootCauseResult option \<times> error option) \<times> 'w" where
  "ExtractRootCause clk orch steps w =
     (case Manager_Generate clk (Orch_llm orch)
             (mkRequest ModeDiagnosis (B_BuildRootCausePrompt (Orch_prompt orch) steps)) w of
        (Inl err, w1) \<Rightarrow> ((None, Some err), w1)
      | (Inr rcaResp, w1) \<Rightarrow>
          (case B_ParseRootCause (Orch_prompt orch) (Resp_Text rcaResp) RootCauseResult_zero of
             (Some err, out) \<Rightarrow> ((None, Some err), w1)
           | (None, rootCause) \<Rightarrow> ((Some rootCause, None), w1)))"

definition ReframeQuestion ::
  "'w Clock \<Rightarrow> 'w Orchestrator \<Rightarrow> string \<Rightarrow> RootCauseResult \<Rightarrow> 'w
     \<Rightarrow> (ReframedQuestion option \<times> error option) \<times> 'w" where
  "ReframeQuestion clk orch question rc w =
     (case Manager_Generate clk (Orch_llm orch)
             (mkRequest ModeReasoning (B_BuildReframePrompt (Orch_prompt orch) question rc)) w of
        (Inl err, w1) \<Rightarrow> ((None, Some err), w1)
      | (Inr reframeResp, w1) \<Rightarrow>
          (case B_ParseReframe (Orch_prompt orch) (Resp_Text reframeResp) ReframedQuestion_zero of
             (Some err, out) \<Rightarrow> ((None, Some err), w1)
           | (None, reframed) \<Rightarrow> ((Some reframed, None), w1)))"

section \<open>Memory engine (package chat)\<close>

record 'w MemoryEngine =
  Mem_redis :: "'w RedisClient"
  Mem_vector :: "'w Store"
  Mem_llm :: "'w Manager"

definition AppendSession ::
  "'w Clock \<Rightarrow> Json \<Rightarrow> 'w MemoryEngine \<Rightarrow> string \<Rightarrow> string \<Rightarrow> string \<Rightarrow> 'w
     \<Rightarrow> error option \<times> 'w" where
  "AppendSession clk json m sessionID role content w =
     (if sessionID = [] then (Some MissingSessionID, w)
      else
        (let key = ''session:'' @ sessionID;
             msg = \<lparr>Msg_Role = role, Msg_Content = content, Msg_Timestamp = Now clk w\<rparr>;
             session0 = SessionMemory_zero;
             ((data, getErr), w1) = Redis_Get (Mem_redis m) key w;
             session1 = (if data \<noteq> [] then snd (Unmarshal_Session json data session0)
                         else session0);
             session2 = session1\<lparr>SM_SessionID := sessionID,
                                 SM_Messages := SM_Messages session1 @ [msg],
                                 SM_UpdatedAt := Now clk w1\<rparr>;
             b = Marshal_Session json session2;
             (setErr, w2) = Redis_Set (Mem_redis m) key b (24 * Hour) w1
         in (None, w2)))"

definition GetSession ::
  "Json \<Rightarrow> 'w MemoryEngine \<Rightarrow> string \<Rightarrow> 'w \<Rightarrow> (error + SessionMemory) \<times> 'w" where
  "GetSession json m sessionID w =
     (let key = ''session:'' @ sessionID;
          ((data, err), w1) = Redis_Get (Mem_redis m) key w
      in if err \<noteq> None \<or> data = [] then (Inl SessionNotFound, w1)
         else (case Unmarshal_Session json data SessionMemory_zero of
                 (Some err, session) \<Rightarrow> (Inl err, w1)
               | (None, session) \<Rightarrow> (Inr session, w1)))"

definition Recall ::
  "'w MemoryEngine \<Rightarrow> string \<Rightarrow> int \<Rightarrow> 'w \<Rightarrow> (error + RetrievedMemory) \<times> 'w" where
  "Recall m query limit w =
     (if query = [] then (Inl EmptyQuery, w)
      else
        (case Embed query of
           Inl err \<Rightarrow> (Inl err, w)
         | Inr emb \<Rightarrow>
             (case Store_Search (Mem_vector m) emb limit w of
                (Inl err, w1) \<Rightarrow> (Inl err, w1)
              | (Inr docs, w1) \<Rightarrow>
                  (let ctxStr = foldl (\<lambda>acc d. acc @ Doc_Content d @ [CHR 0x0A]) [] docs
                   in (Inr \<lparr>RM_Documents = docs, RM_Context = ctxStr\<rparr>, w1)))))"

definition HybridContext ::
  "Json \<Rightarrow> 'w MemoryEngine \<Rightarrow> string \<Rightarrow> string \<Rightarrow> int \<Rightarrow> 'w
     \<Rightarrow> (string \<times> error option) \<times> 'w" where
  "HybridContext json m sessionID query limit w =
     (let (got, w1) = GetSession json m sessionID w;
          contextStr1 =
            (case got of
               Inl err \<Rightarrow> []
             | Inr session \<Rightarrow>
                 foldl (\<lambda>acc msg. acc @ Msg_Role msg @ '': '' @ Msg_Content msg @ [CHR 0x0A]) []
                   (SM_Messages session));
          (recalled, w2) = Recall m query limit w1;
          contextStr2 =
            (case recalled of
               Inl err \<Rightarrow> contextStr1
             | Inr recall \<Rightarrow>
                 contextStr1 @ [CHR 0x0A] @ ''--- Semantic Memory ---'' @ [CHR 0x0A]
                   @ RM_Context recall)
      in ((contextStr2, None), w2))"

definition CompressSession ::
  "'w Clock \<Rightarrow> Json \<Rightarrow> 'w MemoryEngine \<Rightarrow> string \<Rightarrow> 'w \<Rightarrow> (string \<times> error option) \<times> 'w" where
  "CompressSession clk json m sessionID w =
     (case GetSession json m sessionID w of
        (Inl err, w1) \<Rightarrow> (([], Some err), w1)
      | (Inr session, w1) \<Rightarrow>
          (let b = Marshal_Messages json (SM_Messages session);
               summaryPrompt =
                 ''Summarize the following conversation into long-term semantic memory:''
                   @ [CHR 0x0A] @ b
           in case Manager_Generate clk (Mem_llm m) (mkRequest ModeAnalysis summaryPrompt) w1 of
                (Inl err, w2) \<Rightarrow> (([], Some err), w2)
              | (Inr resp, w2) \<Rightarrow>
                  (let emb = (case Embed (Resp_Text resp) of Inl err \<Rightarrow> [] | Inr v \<Rightarrow> v);
                       w3 = snd (Store_Store (Mem_vector m)
                                   \<lparr>Doc_ID = sessionID @ ''_summary'',
                                    Doc_Content = Resp_Text resp, Doc_Vector = emb,
                                    Doc_Meta = [''type'' \<mapsto> ''session_summary'',
                                                ''sessionID'' \<mapsto> sessionID]\<rparr> w2)
                   in ((Resp_Text resp, None), w3))))"

definition StoreLongTerm ::
  "'w Clock \<Rightarrow> 'w MemoryEngine \<Rightarrow> string \<Rightarrow> (string \<rightharpoonup> string) \<Rightarrow> 'w \<Rightarrow> error option \<times> 'w" where
  "StoreLongTerm clk m content meta w =
     (case Embed content of
        Inl err \<Rightarrow> (Some err, w)
      | Inr emb \<Rightarrow>
          Store_Store (Mem_vector m)
            \<lparr>Doc_ID = generateID clk w, Doc_Content = content, Doc_Vector = emb,
             Doc_Meta = meta\<rparr> w)"


section \<open>A small codec for examples\<close>

text \<open>
  A stand-in for \<open>encoding/json\<close> in examples. It accepts a text when its braces are
  balanced, decodes by putting the text into one field of the target, and writes a
  session as its messages, \<open>role:content;\<close> each.
\<close>

fun balanced :: "string \<Rightarrow> nat \<Rightarrow> bool" where
  "balanced [] depth = (depth = 0)"
| "balanced (c # s) depth =
     (if c = CHR ''{'' then balanced s (Suc depth)
      else if c = CHR ''}'' then (depth \<noteq> 0 \<and> balanced s (depth - 1))
      else balanced s depth)"

definition toyCheck :: "string \<Rightarrow> error option" where
  "toyCheck s = (if balanced s 0 then None else Some (Opaque ''unexpected end of JSON input''))"

definition toyMessages :: "string \<Rightarrow> MemoryMessage list" where
  "toyMessages s =
     map (\<lambda>p. \<lparr>Msg_Role = takeWhile (\<lambda>c. c \<noteq> CHR '':'') p,
                Msg_Content = tl (dropWhile (\<lambda>c. c \<noteq> CHR '':'') p), Msg_Timestamp = 0\<rparr>)
       (butlast (Split s (CHR '';'')))"

definition ToyJson :: Json where
  "ToyJson =
     \<lparr>Unmarshal_object = toyCheck,
      Unmarshal_RootCause = (\<lambda>s out. (toyCheck s, if balanced s 0 then out\<lparr>RC_RootCause := s\<rparr> else out)),
      Unmarshal_Solution = (\<lambda>s out. (toyCheck s, if balanced s 0 then out\<lparr>Sol_Owner := s\<rparr> else out)),
      Unmarshal_Reframe = (\<lambda>s out. (toyCheck s, if balanced s 0 then out\<lparr>RQ_Reframed := s\<rparr> else out)),
      Unmarshal_Session = (\<lambda>s out. (None, out\<lparr>SM_Messages := toyMessages s\<rparr>)),
      Marshal_Session = (\<lambda>sm. concat (map (\<lambda>m. Msg_Role m @ '':'' @ Msg_Content m @ '';'')
                                        (SM_Messages sm))),
      Marshal_Messages = (\<lambda>ms. concat (map (\<lambda>m. Msg_Role m @ '':'' @ Msg_Content m @ '';'') ms))\<rparr>"

section \<open>Collaborators for examples\<close>

text \<open>
  A world for examples: a clock, the requests the back end has received, the entries of
  the key/value store (key, value, time to live) and the rows of the vector table (id,
  content, embedding). The example back end answers every request with the same text
  and advances the clock; the example key/value store and database never fail, and the
  example database returns rows in insertion order; the "down" ones always fail.
\<close>

record ExWorld =
  ex_clock :: int
  ex_requests :: "ProviderRequest list"
  ex_kv :: "(string \<times> string \<times> int) list"
  ex_rows :: "(string \<times> string \<times> real list) list"

definition ExWorld_empty :: ExWorld where
  "ExWorld_empty = \<lparr>ex_clock = 0, ex_requests = [], ex_kv = [], ex_rows = []\<rparr>"

definition ExClock :: "ExWorld Clock" where
  "ExClock = \<lparr>Now = ex_clock, Format = decimal\<rparr>"

definition ExProvider :: "ExWorld Provider" where
  "ExProvider = \<lparr>Provider_Name = ''primary'',
     Provider_Generate = (\<lambda>req w.
       (Inr \<lparr>PResp_Text = ''Answer: {cause} end'', PResp_Tokens = 3,
             PResp_Model = PReq_Model req, PResp_Metadata = Map.empty\<rparr>,
        w\<lparr>ex_clock := ex_clock w + 1, ex_requests := ex_requests w @ [req]\<rparr>))\<rparr>"

definition ExRedis :: "ExWorld RedisClient" where
  "ExRedis =
     \<lparr>Redis_Set = (\<lambda>key val ttl w.
        (None, w\<lparr>ex_kv := (key, val, ttl) # filter (\<lambda>e. fst e \<noteq> key) (ex_kv w)\<rparr>)),
      Redis_Get = (\<lambda>key w.
        (case find (\<lambda>e. fst e = key) (ex_kv w) of
           None \<Rightarrow> (([], Some (Opaque ''redis: nil'')), w)
         | Some (k, val, ttl) \<Rightarrow> ((val, None), w)))\<rparr>"

definition DownRedis :: "'w RedisClient" where
  "DownRedis =
     \<lparr>Redis_Set = (\<lambda>key val ttl w. (Some (Opaque ''connection refused''), w)),
      Redis_Get = (\<lambda>key w. (([], Some (Opaque ''connection refused'')), w))\<rparr>"

definition ExDB :: "ExWorld SqlDB" where
  "ExDB =
     \<lparr>ExecContext = (\<lambda>stmt w.
        (case stmt of
           Upsert tbl ident content vec meta \<Rightarrow>
             (None, w\<lparr>ex_rows :=
                (if ident \<in> set (map fst (ex_rows w))
                 then map (\<lambda>r. if fst r = ident then (ident, content, vec) else r) (ex_rows w)
                 else ex_rows w @ [(ident, content, vec)])\<rparr>)
         | DeleteByID tbl ident \<Rightarrow>
             (None, w\<lparr>ex_rows := filter (\<lambda>r. fst r \<noteq> ident) (ex_rows w)\<rparr>)
         | _ \<Rightarrow> (None, w))),
      QueryContext = (\<lambda>stmt w.
        (case stmt of
           SelectNearest tbl vec n \<Rightarrow>
             (Inr (map (\<lambda>r. Inr (fst r, fst (snd r), ''{}'')) (take (nat n) (ex_rows w))), w)
         | _ \<Rightarrow> (Inl (Opaque ''not a query''), w)))\<rparr>"

definition DownDB :: "'w SqlDB" where
  "DownDB =
     \<lparr>ExecContext = (\<lambda>stmt w. (Some (Opaque ''connection refused''), w)),
      QueryContext = (\<lambda>stmt w. (Inl (Opaque ''connection refused''), w))\<rparr>"

definition ExWorld_seven :: ExWorld where
  "ExWorld_seven = ExWorld_empty\<lparr>ex_rows :=
     [(''d1'', ''one'', [1]), (''d2'', ''two'', [2]), (''d3'', ''three'', [3]),
      (''d4'', ''four'', [4]), (''d5'', ''five'', [5]), (''d6'', ''six'', [6]),
      (''d7'', ''seven'', [7])]\<rparr>"

definition ExRender :: Renderer where
  "ExRender tpl data = ''prompt''"

definition ExManager :: "ExWorld Manager" where
  "ExManager =
     \<lparr>Mgr_engine = RegisterProvider NewEngine ExProvider,
      Mgr_vector = Some (PgVectorStore_iface (NewPgVectorStore ExDB 384)),
      Mgr_redis = Some ExRedis,
      Mgr_model = ''m'', Mgr_embed = ''e'', Mgr_provider = ''local''\<rparr>"

definition ExMemory :: "ExWorld MemoryEngine" where
  "ExMemory =
     \<lparr>Mem_redis = ExRedis, Mem_vector = PgVectorStore_iface (NewPgVectorStore ExDB 384),
      Mem_llm = ExManager\<rparr>"

definition ExOrchestrator :: "ExWorld Orchestrator" where
  "ExOrchestrator =
     NewOrchestrator ExManager (PgVectorStore_iface (NewPgVectorStore ExDB 384))
       (NewBuilder ToyJson ExRender)"

section \<open>Properties of the generation engine\<close>

subsection \<open>The paths through \<open>Generate\<close>\<close>

lemma SelectProvider_eq: "SelectProvider mode = (''primary'', None)"
  by (simp add: SelectProvider_def)

lemma Engine_Generate_empty:
  "Req_Prompt req = [] \<Longrightarrow> Engine_Generate clk e req w = (Inl EmptyPrompt, w)"
  by (simp add: Engine_Generate_def)

lemma Engine_Generate_unregistered:
  "Req_Prompt req \<noteq> [] \<Longrightarrow> providers e ''primary'' = None \<Longrightarrow>
   Engine_Generate clk e req w = (Inl (ProviderNotRegistered ''primary''), w)"
  by (simp add: Engine_Generate_def SelectProvider_eq Let_def)

lemma Engine_Generate_registered:
  "Req_Prompt req \<noteq> [] \<Longrightarrow> providers e ''primary'' = Some p \<Longrightarrow>
   Engine_Generate clk e req w =
     (case Provider_Generate p (dispatched e req) w of
        (Inl err, w') \<Rightarrow> (Inl (BackendFailure err), w')
      | (Inr pResp, w') \<Rightarrow>
     (Inr \<lparr>Resp_Text = PResp_Text pResp, Resp_Tokens = PResp_Tokens pResp,
           Resp_Latency = Now clk w' - Now clk w, Resp_Provider = Provider_Name p,
           Resp_Model = PResp_Model pResp,
           Resp_Confidence = EstimateConfidence (Req_Mode req) (PResp_Text pResp)\<rparr>, w'))"
  unfolding Engine_Generate_def SelectProvider_eq dispatched_def
  by (simp add: Let_def EstimateConfidence_def split: prod.split sum.split)

lemma EstimateConfidence_replicate:
  "EstimateConfidence mode (replicate n c) =
     (if n > 1500 then 0.95 else if n > 800 then 0.85 else if n > 300 then 0.7 else 0.5)"
  by (simp add: EstimateConfidence_def)

lemma EstimateConfidence_bounds: "0 \<le> EstimateConfidence mode t \<and> EstimateConfidence mode t \<le> 1"
  by (simp add: EstimateConfidence_def Let_def)

lemma Engine_Generate_confidence:
  assumes g: "Engine_Generate clk e req w = (Inr resp, w')"
  shows "Resp_Confidence resp = EstimateConfidence mode (Resp_Text resp)"
proof -
  have ne: "Req_Prompt req \<noteq> []"
    using g Engine_Generate_empty[of req clk e w] by auto
  obtain p where p: "providers e ''primary'' = Some p"
    using g ne Engine_Generate_unregistered[of req e clk w] by (cases "providers e ''primary''") auto
  obtain r w1 where r: "Provider_Generate p (dispatched e req) w = (r, w1)"
    by (cases "Provider_Generate p (dispatched e req) w") auto
  show ?thesis
    using g Engine_Generate_registered[OF ne p, of clk w] r
    by (cases r) (auto simp: EstimateConfidence_def)
qed


text \<open>
  Claim C3. The confidence score is a step function of the length of the output text
  alone: above 1500 it is 0.95, else above 800 it is 0.85, else above 300 it is 0.70, else
  0.50; so texts of 50, 301, 801 and 1501 bytes score 0.50, 0.70, 0.85 and 0.95. The score
  lies in [0,1], and the response of every successful \<open>Generate\<close> carries the score of its
  own text.
\<close>

theorem confidence_step_function:
  "EstimateConfidence mode text =
     (if length text > 1500 then 0.95 else if length text > 800 then 0.85
      else if length text > 300 then 0.7 else 0.5)
   \<and> EstimateConfidence mode (replicate 50 c) = 0.5
   \<and> EstimateConfidence mode (replicate 301 c) = 0.7
   \<and> EstimateConfidence mode (replicate 801 c) = 0.85
   \<and> EstimateConfidence mode (replicate 1501 c) = 0.95
   \<and> 0 \<le> EstimateConfidence mode text \<and> EstimateConfidence mode text \<le> 1
   \<and> (Engine_Generate clk e req w = (Inr resp, w') \<longrightarrow>
        Resp_Confidence resp = EstimateConfidence (Req_Mode req) (Resp_Text resp)
        \<and> 0 \<le> Resp_Confidence resp \<and> Resp_Confidence resp \<le> 1)"
proof (intro conjI impI)
  show "EstimateConfidence mode text =
     (if length text > 1500 then 0.95 else if length text > 800 then 0.85
      else if length text > 300 then 0.7 else 0.5)"
    by (simp add: EstimateConfidence_def)
  show "EstimateConfidence mode (replicate 50 c) = 0.5"
    by (simp add: EstimateConfidence_replicate)
  show "EstimateConfidence mode (replicate 301 c) = 0.7"
    by (simp add: EstimateConfidence_replicate)
  show "EstimateConfidence mode (replicate 801 c) = 0.85"
    by (simp add: EstimateConfidence_replicate)
  show "EstimateConfidence mode (replicate 1501 c) = 0.95"
    by (simp add: EstimateConfidence_replicate)
  show "0 \<le> EstimateConfidence mode text" "EstimateConfidence mode text \<le> 1"
    using EstimateConfidence_bounds[of mode "text"] by simp_all
next
  assume g: "Engine_Generate clk e req w = (Inr resp, w')"
  show c: "Resp_Confidence resp = EstimateConfidence (Req_Mode req) (Resp_Text resp)"
    by (rule Engine_Generate_confidence[OF g])
  show "0 \<le> Resp_Confidence resp" "Resp_Confidence resp \<le> 1"
    using c EstimateConfidence_bounds[of "Req_Mode req" "Resp_Text resp"] by simp_all
qed


theorem confidence_step_function_witness:
  "Engine_Generate WallClock (RegisterProvider NewEngine LocalProvider)
       (mkRequest ModeReasoning ''why'') 7
     = (Inr \<lparr>Resp_Text = ''[LOCAL MODEL RESPONSE PLACEHOLDER]'' @ [CHR 0x0A] @ ''why'',
             Resp_Tokens = 128, Resp_Latency = 0, Resp_Provider = ''primary'',
             Resp_Model = ''reasoning-model'', Resp_Confidence = 0.5\<rparr>, 7)
   \<and> EstimateConfidence ModeReasoning (''[LOCAL MODEL RESPONSE PLACEHOLDER]'' @ [CHR 0x0A] @ ''why'') = 0.5"
proof -
  let ?e = "RegisterProvider NewEngine LocalProvider :: int Engine"
  let ?req = "mkRequest ModeReasoning ''why''"
  have ne: "Req_Prompt ?req \<noteq> []" by (simp add: mkRequest_def)
  have p: "providers ?e ''primary'' = Some LocalProvider"
    by (simp add: RegisterProvider_def NewEngine_def LocalProvider_def)
  have d: "dispatched ?e ?req = \<lparr>PReq_Prompt = ''why'', PReq_Temperature = 0,
             PReq_MaxTokens = 1024, PReq_Model = ''reasoning-model''\<rparr>"
    by (simp add: dispatched_def mkRequest_def RegisterProvider_def NewEngine_def map_get_def
          ModeReasoning_def ModeAnalysis_def ModeDiagnosis_def ModePlanning_def ModeDefault_def)
  have g: "Engine_Generate WallClock ?e ?req 7
     = (Inr \<lparr>Resp_Text = ''[LOCAL MODEL RESPONSE PLACEHOLDER]'' @ [CHR 0x0A] @ ''why'',
             Resp_Tokens = 128, Resp_Latency = 0, Resp_Provider = ''primary'',
             Resp_Model = ''reasoning-model'', Resp_Confidence = 0.5\<rparr>, 7)"
    by (simp add: Engine_Generate_registered[OF ne p] d)
       (simp add: LocalProvider_def WallClock_def EstimateConfidence_def mkRequest_def)
  show ?thesis
    using g confidence_step_function[of ModeReasoning "''[LOCAL MODEL RESPONSE PLACEHOLDER]'' @ [CHR 0x0A] @ ''why''"
              "CHR ''a''" WallClock ?e ?req 7 _ 7]
    by simp
qed


text \<open>
  Claim C9. \<open>SelectProvider\<close> returns the name \<open>primary\<close> and no error for every mode,
  named or not, and so \<open>Generate\<close> never returns through its policy-error branch.
\<close>

theorem SelectProvider_constant: "SelectProvider mode = (''primary'', None)
  \<and> fst (Engine_Generate clk e req w) \<noteq> Inl (PolicyError err)"
proof
  show "SelectProvider mode = (''primary'', None)" by (simp add: SelectProvider_def)
  show "fst (Engine_Generate clk e req w) \<noteq> Inl (PolicyError err)"
  proof (cases "Req_Prompt req = []")
    case True
    then show ?thesis by (simp add: Engine_Generate_empty)
  next
    case ne: False
    show ?thesis
    proof (cases "providers e ''primary''")
      case None
      then show ?thesis using ne by (simp add: Engine_Generate_unregistered)
    next
      case (Some p)
      show ?thesis
        by (simp add: Engine_Generate_registered[OF ne Some] split: prod.split sum.split)
    qed
  qed
qed


text \<open>
  Claim C10. The confidence estimate does not depend on the mode it is given.
\<close>

theorem EstimateConfidence_mode_independent: "EstimateConfidence m1 t = EstimateConfidence m2 t"
  by (simp add: EstimateConfidence_def)


text \<open>
  Claim C4. \<open>Generate\<close> fails with the empty-prompt error exactly when the prompt is
  empty, and then touches nothing. With a prompt, when no back end is registered under
  the name the policy selects, it fails with the not-registered error that names
  \<open>primary\<close> and leaves the world as it was, whatever back ends are registered under
  other names. With a back end registered, the one request that reaches it
  carries max-tokens 1024 in place of zero and the model of mode \<open>default\<close> in place
  of an unset mode.
\<close>

theorem Engine_Generate_validation:
  "(fst (Engine_Generate clk e req w) = Inl EmptyPrompt \<longleftrightarrow> Req_Prompt req = [])
   \<and> (Req_Prompt req = [] \<longrightarrow> snd (Engine_Generate clk e req w) = w)
   \<and> (Req_Prompt req \<noteq> []
        \<and> providers e (fst (SelectProvider (if Req_Mode req = [] then ModeDefault else Req_Mode req))) = None
      \<longrightarrow> Engine_Generate clk e req w = (Inl (ProviderNotRegistered ''primary''), w)
          \<and> Error (ProviderNotRegistered ''primary'') = ''llm provider not registered: primary'')
   \<and> (Req_Prompt req \<noteq> [] \<and> providers e ''primary'' = Some p
      \<longrightarrow> snd (Engine_Generate clk e req w) = snd (Provider_Generate p (dispatched e req) w)
          \<and> (case fst (Provider_Generate p (dispatched e req) w) of
                Inl err \<Rightarrow> fst (Engine_Generate clk e req w) = Inl (BackendFailure err)
              | Inr pResp \<Rightarrow> isl (fst (Engine_Generate clk e req w)) = False)
          \<and> PReq_Prompt (dispatched e req) = Req_Prompt req
          \<and> PReq_MaxTokens (dispatched e req)
                = (if Req_MaxTokens req = 0 then 1024 else Req_MaxTokens req)
          \<and> PReq_Model (dispatched e req)
                = (if map_get (modelMap e) (if Req_Mode req = [] then ModeDefault else Req_Mode req) = []
                   then map_get (modelMap e) ModeDefault
                   else map_get (modelMap e) (if Req_Mode req = [] then ModeDefault else Req_Mode req)))"
proof (intro conjI impI)
  show "(fst (Engine_Generate clk e req w) = Inl EmptyPrompt) = (Req_Prompt req = [])"
  proof (cases "Req_Prompt req = []")
    case True
    then show ?thesis by (simp add: Engine_Generate_empty)
  next
    case ne: False
    show ?thesis
    proof (cases "providers e ''primary''")
      case None
      then show ?thesis using ne by (simp add: Engine_Generate_unregistered)
    next
      case (Some p)
      show ?thesis using ne
        by (simp add: Engine_Generate_registered[OF ne Some] split: prod.split sum.split)
    qed
  qed
next
  assume "Req_Prompt req = []"
  then show "snd (Engine_Generate clk e req w) = w" by (simp add: Engine_Generate_empty)
next
  assume a: "Req_Prompt req \<noteq> [] \<and>
    providers e (fst (SelectProvider (if Req_Mode req = [] then ModeDefault else Req_Mode req))) = None"
  then show "Engine_Generate clk e req w = (Inl (ProviderNotRegistered ''primary''), w)"
    by (simp add: Engine_Generate_unregistered SelectProvider_eq)
  show "Error (ProviderNotRegistered ''primary'') = ''llm provider not registered: primary''"
    by simp
next
  assume a: "Req_Prompt req \<noteq> [] \<and> providers e ''primary'' = Some p"
  then have ne: "Req_Prompt req \<noteq> []" and p: "providers e ''primary'' = Some p" by simp_all
  show "snd (Engine_Generate clk e req w) = snd (Provider_Generate p (dispatched e req) w)"
    by (simp add: Engine_Generate_registered[OF ne p] split: prod.split sum.split)
  show "case fst (Provider_Generate p (dispatched e req) w) of
                Inl err \<Rightarrow> fst (Engine_Generate clk e req w) = Inl (BackendFailure err)
              | Inr pResp \<Rightarrow> isl (fst (Engine_Generate clk e req w)) = False"
    by (simp add: Engine_Generate_registered[OF ne p] split: prod.split sum.split)
  show "PReq_Prompt (dispatched e req) = Req_Prompt req" by (simp add: dispatched_def)
  show "PReq_MaxTokens (dispatched e req)
                = (if Req_MaxTokens req = 0 then 1024 else Req_MaxTokens req)"
    by (simp add: dispatched_def)
  show "PReq_Model (dispatched e req)
                = (if map_get (modelMap e) (if Req_Mode req = [] then ModeDefault else Req_Mode req) = []
                   then map_get (modelMap e) ModeDefault
                   else map_get (modelMap e) (if Req_Mode req = [] then ModeDefault else Req_Mode req))"
    by (simp add: dispatched_def Let_def)
qed

theorem Engine_Generate_validation_witness:
  "Engine_Generate CallClock (RegisterProvider NewEngine RecordingProvider)
       (mkRequest ModeReasoning []) [] = (Inl EmptyPrompt, [])
   \<and> Engine_Generate CallClock NewEngine (mkRequest [] ''why'') []
       = (Inl (ProviderNotRegistered ''primary''), [])
   \<and> snd (Engine_Generate CallClock (RegisterProvider NewEngine RecordingProvider)
            (mkRequest [] ''why'') [])
       = [\<lparr>PReq_Prompt = ''why'', PReq_Temperature = 0, PReq_MaxTokens = 1024,
           PReq_Model = ''default-model''\<rparr>]"
proof -
  let ?e = "RegisterProvider NewEngine RecordingProvider"
  have p: "providers ?e ''primary'' = Some RecordingProvider"
    by (simp add: RegisterProvider_def NewEngine_def RecordingProvider_def)
  have n: "providers (NewEngine :: ProviderRequest list Engine) ''primary'' = None"
    by (simp add: NewEngine_def)
  have d: "dispatched ?e (mkRequest [] ''why'') = \<lparr>PReq_Prompt = ''why'', PReq_Temperature = 0,
             PReq_MaxTokens = 1024, PReq_Model = ''default-model''\<rparr>"
    by (simp add: dispatched_def mkRequest_def RegisterProvider_def NewEngine_def map_get_def
          ModeReasoning_def ModeAnalysis_def ModeDiagnosis_def ModePlanning_def ModeDefault_def)
  have 1: "Engine_Generate CallClock ?e (mkRequest ModeReasoning []) [] = (Inl EmptyPrompt, [])"
    using Engine_Generate_validation[of CallClock ?e "mkRequest ModeReasoning []" "[]" RecordingProvider]
    by (cases "Engine_Generate CallClock ?e (mkRequest ModeReasoning []) []")
       (simp add: mkRequest_def)
  have 2: "Engine_Generate CallClock NewEngine (mkRequest [] ''why'') []
       = (Inl (ProviderNotRegistered ''primary''), [])"
    using Engine_Generate_validation[of CallClock NewEngine "mkRequest [] ''why''" "[]" RecordingProvider] n
    by (simp add: mkRequest_def SelectProvider_eq)
  have 3: "snd (Engine_Generate CallClock ?e (mkRequest [] ''why'') [])
       = [\<lparr>PReq_Prompt = ''why'', PReq_Temperature = 0, PReq_MaxTokens = 1024,
           PReq_Model = ''default-model''\<rparr>]"
    using Engine_Generate_validation[of CallClock ?e "mkRequest [] ''why''" "[]" RecordingProvider] p
    by (simp add: d) (simp add: mkRequest_def RecordingProvider_def)
  show ?thesis using 1 2 3 by simp
qed


section \<open>Properties of the prompt parsers\<close>

subsection \<open>\<open>Index\<close> and \<open>LastIndex\<close> of a single byte\<close>

lemma length_takeWhile_less:
  "\<exists>x\<in>set xs. \<not> P x \<Longrightarrow> length (takeWhile P xs) < length xs"
  by (induction xs) auto

lemma index_from_single:
  "index_from s [c] i = (if c \<in> set s then i + int (firstOcc c s) else - 1)"
  by (induction s arbitrary: i) (auto simp: firstOcc_def)

lemma Index_single:
  "Index s [c] = (if c \<in> set s then int (firstOcc c s) else - 1)"
  by (simp add: Index_def index_from_single)

lemma lastOcc_Cons:
  "lastOcc c (x # s) = (if c \<in> set s then Suc (lastOcc c s) else 0)"
proof (cases "c \<in> set s")
  case True
  then have l: "length (takeWhile (\<lambda>x. x \<noteq> c) (rev s)) < length s"
    using length_takeWhile_less[of "rev s" "\<lambda>x. x \<noteq> c"] by simp
  from True show ?thesis using l
    by (auto simp: lastOcc_def takeWhile_append1 takeWhile_append)
next
  case False
  then have "takeWhile (\<lambda>x. x \<noteq> c) (rev s @ [x]) = rev s @ takeWhile (\<lambda>x. x \<noteq> c) [x]"
    by (intro takeWhile_append2) auto
  then show ?thesis using False by (auto simp: lastOcc_def)
qed

lemma last_index_from_single:
  "last_index_from s [c] i best = (if c \<in> set s then i + int (lastOcc c s) else best)"
proof (induction s arbitrary: i best)
  case Nil
  then show ?case by simp
next
  case (Cons x s)
  show ?case
    by (auto simp: Cons.IH lastOcc_Cons)
qed

lemma LastIndex_single:
  "LastIndex s [c] = (if c \<in> set s then int (lastOcc c s) else - 1)"
  by (simp add: LastIndex_def last_index_from_single)

lemma firstOcc_props:
  assumes "c \<in> set t"
  shows "firstOcc c t < length t" "t ! firstOcc c t = c" "\<forall>k<firstOcc c t. t ! k \<noteq> c"
proof -
  show l: "firstOcc c t < length t"
    using assms length_takeWhile_less[of t "\<lambda>x. x \<noteq> c"] by (simp add: firstOcc_def)
  show "t ! firstOcc c t = c"
    using nth_length_takeWhile[of "\<lambda>x. x \<noteq> c" t] l unfolding firstOcc_def by simp
  show "\<forall>k<firstOcc c t. t ! k \<noteq> c"
  proof (intro allI impI)
    fix k assume k: "k < firstOcc c t"
    then have "takeWhile (\<lambda>x. x \<noteq> c) t ! k \<in> set (takeWhile (\<lambda>x. x \<noteq> c) t)"
      by (simp add: firstOcc_def)
    then have "takeWhile (\<lambda>x. x \<noteq> c) t ! k \<noteq> c"
      using set_takeWhileD by fastforce
    then show "t ! k \<noteq> c" using k by (simp add: firstOcc_def takeWhile_nth)
  qed
qed

lemma firstOcc_unique:
  assumes "i < length t" "t ! i = c" "\<forall>k<i. t ! k \<noteq> c"
  shows "firstOcc c t = i"
proof -
  have "takeWhile (\<lambda>x. x \<noteq> c) t = take i t"
    using assms by (intro takeWhile_eq_take_P_nth) auto
  then show ?thesis using assms by (simp add: firstOcc_def)
qed

lemma lastOcc_rev: "c \<in> set t \<Longrightarrow> lastOcc c t = length t - 1 - firstOcc c (rev t)"
  by (simp add: lastOcc_def firstOcc_def)

lemma lastOcc_props:
  assumes "c \<in> set t"
  shows "lastOcc c t < length t" "t ! lastOcc c t = c"
        "\<forall>k. lastOcc c t < k \<longrightarrow> k < length t \<longrightarrow> t ! k \<noteq> c"
proof -
  have c: "c \<in> set (rev t)" using assms by simp
  note f = firstOcc_props[OF c]
  have ne: "t \<noteq> []" using assms by auto
  show l: "lastOcc c t < length t" using ne by (simp add: lastOcc_def)
  have e: "lastOcc c t = length t - Suc (firstOcc c (rev t))" by (simp add: lastOcc_def firstOcc_def)
  show "t ! lastOcc c t = c"
    using f(1) f(2) by (simp add: e rev_nth)
  show "\<forall>k. lastOcc c t < k \<longrightarrow> k < length t \<longrightarrow> t ! k \<noteq> c"
  proof (intro allI impI)
    fix k assume k: "lastOcc c t < k" "k < length t"
    have "length t - Suc k < firstOcc c (rev t)" using k f(1) by (simp add: e)
    then have "rev t ! (length t - Suc k) \<noteq> c" using f(3) by blast
    then show "t ! k \<noteq> c" using k by (simp add: rev_nth)
  qed
qed

lemma lastOcc_unique:
  assumes "j < length t" "t ! j = c" "\<forall>k. j < k \<longrightarrow> k < length t \<longrightarrow> t ! k \<noteq> c"
  shows "lastOcc c t = j"
proof -
  have c: "c \<in> set t" using assms by (metis nth_mem)
  note p = lastOcc_props[OF c]
  have "\<not> lastOcc c t < j" using p(3) assms by blast
  moreover have "\<not> j < lastOcc c t" using assms p by blast
  ultimately show ?thesis by simp
qed



subsection \<open>The extraction\<close>

lemma firstBrace_iff: "firstBrace t i \<longleftrightarrow> CHR ''{'' \<in> set t \<and> i = firstOcc (CHR ''{'') t"
proof
  assume a: "firstBrace t i"
  then have m: "CHR ''{'' \<in> set t" unfolding firstBrace_def using nth_mem[of i t] by auto
  have "firstOcc (CHR ''{'') t = i"
    using a unfolding firstBrace_def by (intro firstOcc_unique) simp_all
  then show "CHR ''{'' \<in> set t \<and> i = firstOcc (CHR ''{'') t" using m by simp
next
  assume a: "CHR ''{'' \<in> set t \<and> i = firstOcc (CHR ''{'') t"
  then have m: "CHR ''{'' \<in> set t" by simp
  show "firstBrace t i"
    unfolding firstBrace_def using a firstOcc_props[OF m] by simp
qed

lemma lastBrace_iff: "lastBrace t j \<longleftrightarrow> CHR ''}'' \<in> set t \<and> j = lastOcc (CHR ''}'') t"
proof
  assume a: "lastBrace t j"
  then have m: "CHR ''}'' \<in> set t" unfolding lastBrace_def using nth_mem[of j t] by auto
  have "lastOcc (CHR ''}'') t = j"
    using a unfolding lastBrace_def by (intro lastOcc_unique) simp_all
  then show "CHR ''}'' \<in> set t \<and> j = lastOcc (CHR ''}'') t" using m by simp
next
  assume a: "CHR ''}'' \<in> set t \<and> j = lastOcc (CHR ''}'') t"
  then have m: "CHR ''}'' \<in> set t" by simp
  show "lastBrace t j"
    unfolding lastBrace_def using a lastOcc_props[OF m] by simp
qed

lemma slice_nat: "a \<le> b \<Longrightarrow> slice t (int a) (int b + 1) = take (b + 1 - a) (drop a t)"
  by (simp add: slice_def nat_diff_distrib nat_add_distrib)

lemma extractJSON_found:
  assumes "CHR ''{'' \<in> set (TrimSpace raw)" "CHR ''}'' \<in> set (TrimSpace raw)"
    "firstOcc (CHR ''{'') (TrimSpace raw) < lastOcc (CHR ''}'') (TrimSpace raw)"
  shows "extractJSON json raw =
     (if Unmarshal_object json
           (take (lastOcc (CHR ''}'') (TrimSpace raw) + 1 - firstOcc (CHR ''{'') (TrimSpace raw))
              (drop (firstOcc (CHR ''{'') (TrimSpace raw)) (TrimSpace raw))) = None
      then Inr (take (lastOcc (CHR ''}'') (TrimSpace raw) + 1 - firstOcc (CHR ''{'') (TrimSpace raw))
              (drop (firstOcc (CHR ''{'') (TrimSpace raw)) (TrimSpace raw)))
      else Inl InvalidJSONStructure)"
proof -
  let ?t = "TrimSpace raw"
  let ?a = "firstOcc (CHR ''{'') ?t" and ?b = "lastOcc (CHR ''}'') ?t"
  have s: "slice ?t (int ?a) (int ?b + 1) = take (?b + 1 - ?a) (drop ?a ?t)"
    using assms(3) by (intro slice_nat) simp
  have i: "Index ?t ''{'' = int ?a" using assms(1) by (simp add: Index_single)
  have l: "LastIndex ?t ''}'' = int ?b" using assms(2) by (simp add: LastIndex_single)
  have c: "\<not> (int ?a = - 1 \<or> int ?b = - 1 \<or> int ?b \<le> int ?a)" using assms(3) by simp
  show ?thesis
    unfolding extractJSON_def Let_def i l s if_not_P[OF c]
    by (cases "Unmarshal_object json (take (?b + 1 - ?a) (drop ?a ?t))") simp_all
qed

lemma extractJSON_not_found:
  assumes "\<not> (CHR ''{'' \<in> set (TrimSpace raw) \<and> CHR ''}'' \<in> set (TrimSpace raw)
    \<and> firstOcc (CHR ''{'') (TrimSpace raw) < lastOcc (CHR ''}'') (TrimSpace raw))"
  shows "extractJSON json raw = Inl NoJSONFound"
proof -
  let ?t = "TrimSpace raw"
  let ?a = "firstOcc (CHR ''{'') ?t" and ?b = "lastOcc (CHR ''}'') ?t"
  have c: "Index ?t ''{'' = - 1 \<or> LastIndex ?t ''}'' = - 1 \<or> LastIndex ?t ''}'' \<le> Index ?t ''{''"
    using assms by (auto simp: Index_single LastIndex_single)
  show ?thesis
    unfolding extractJSON_def Let_def if_P[OF c] by (rule refl)
qed

lemma brace_pair_exists:
  "(\<exists>i j. i < j \<and> j < length t \<and> t ! i = CHR ''{'' \<and> t ! j = CHR ''}'')
   \<longleftrightarrow> CHR ''{'' \<in> set t \<and> CHR ''}'' \<in> set t \<and> firstOcc (CHR ''{'') t < lastOcc (CHR ''}'') t"
proof
  assume "\<exists>i j. i < j \<and> j < length t \<and> t ! i = CHR ''{'' \<and> t ! j = CHR ''}''"
  then obtain i j where ij: "i < j" "j < length t" "t ! i = CHR ''{''" "t ! j = CHR ''}''" by blast
  have il: "i < length t" using ij by simp
  have m1: "CHR ''{'' \<in> set t" using nth_mem[OF il] ij(3) by simp
  have m2: "CHR ''}'' \<in> set t" using nth_mem[OF ij(2)] ij(4) by simp
  have 1: "\<not> i < firstOcc (CHR ''{'') t" using firstOcc_props(3)[OF m1] ij(3) by blast
  have 2: "\<not> lastOcc (CHR ''}'') t < j" using lastOcc_props(3)[OF m2] ij(2) ij(4) by blast
  have "firstOcc (CHR ''{'') t < lastOcc (CHR ''}'') t" using 1 2 ij(1) by simp
  then show "CHR ''{'' \<in> set t \<and> CHR ''}'' \<in> set t \<and> firstOcc (CHR ''{'') t < lastOcc (CHR ''}'') t"
    using m1 m2 by simp
next
  assume a: "CHR ''{'' \<in> set t \<and> CHR ''}'' \<in> set t \<and> firstOcc (CHR ''{'') t < lastOcc (CHR ''}'') t"
  then have m1: "CHR ''{'' \<in> set t" and m2: "CHR ''}'' \<in> set t" by simp_all
  have "firstOcc (CHR ''{'') t < lastOcc (CHR ''}'') t \<and> lastOcc (CHR ''}'') t < length t
      \<and> t ! firstOcc (CHR ''{'') t = CHR ''{'' \<and> t ! lastOcc (CHR ''}'') t = CHR ''}''"
    using a firstOcc_props(2)[OF m1] lastOcc_props(1,2)[OF m2] by simp
  then show "\<exists>i j. i < j \<and> j < length t \<and> t ! i = CHR ''{'' \<and> t ! j = CHR ''}''"
    by blast
qed

text \<open>
  Claim C2. \<open>extractJSON\<close> trims the output, takes the text from its first \<open>{\<close> to its
  last \<open>}\<close> inclusive, whatever lies between, and decodes it. It returns that text exactly
  when the last \<open>}\<close> comes after the first \<open>{\<close> and the text decodes as an object; it
  fails with "no json found" exactly when no \<open>{\<close> is followed by a \<open>}\<close>, and with
  "invalid json structure" exactly when the text between them does not decode. Each of
  \<open>ParseRootCause\<close>, \<open>ParseSolution\<close> and \<open>ParseReframe\<close> succeeds exactly when the
  extraction succeeds and the extracted text decodes into the target record.
\<close>

theorem extractJSON_greedy:
  "(extractJSON json raw = Inr out \<longleftrightarrow>
      (\<exists>i j. firstBrace (TrimSpace raw) i \<and> lastBrace (TrimSpace raw) j \<and> i < j
             \<and> out = take (j + 1 - i) (drop i (TrimSpace raw))
             \<and> Unmarshal_object json out = None))
   \<and> (extractJSON json raw = Inl err \<longleftrightarrow>
        (err = NoJSONFound
           \<and> \<not> (\<exists>i j. i < j \<and> j < length (TrimSpace raw)
                      \<and> TrimSpace raw ! i = CHR ''{'' \<and> TrimSpace raw ! j = CHR ''}''))
        \<or> (err = InvalidJSONStructure
           \<and> (\<exists>i j. firstBrace (TrimSpace raw) i \<and> lastBrace (TrimSpace raw) j \<and> i < j
                    \<and> Unmarshal_object json (take (j + 1 - i) (drop i (TrimSpace raw))) \<noteq> None)))
   \<and> (fst (ParseRootCause json raw rc0) = None \<longleftrightarrow>
        (\<exists>jsonStr. extractJSON json raw = Inr jsonStr
                   \<and> fst (Unmarshal_RootCause json jsonStr rc0) = None))
   \<and> (fst (ParseSolution json raw sol0) = None \<longleftrightarrow>
        (\<exists>jsonStr. extractJSON json raw = Inr jsonStr
                   \<and> fst (Unmarshal_Solution json jsonStr sol0) = None))
   \<and> (fst (ParseReframe json raw rq0) = None \<longleftrightarrow>
        (\<exists>jsonStr. extractJSON json raw = Inr jsonStr
                   \<and> fst (Unmarshal_Reframe json jsonStr rq0) = None))"
proof (intro conjI)
  let ?t = "TrimSpace raw"
  let ?a = "firstOcc (CHR ''{'') ?t" and ?b = "lastOcc (CHR ''}'') ?t"
  let ?found = "CHR ''{'' \<in> set ?t \<and> CHR ''}'' \<in> set ?t \<and> ?a < ?b"
  let ?js = "take (?b + 1 - ?a) (drop ?a ?t)"
  have pair: "(\<exists>i j. firstBrace ?t i \<and> lastBrace ?t j \<and> i < j \<and> P i j) \<longleftrightarrow> (?found \<and> P ?a ?b)"
    for P
    unfolding firstBrace_iff lastBrace_iff by blast
  show "extractJSON json raw = Inr out \<longleftrightarrow>
      (\<exists>i j. firstBrace ?t i \<and> lastBrace ?t j \<and> i < j
             \<and> out = take (j + 1 - i) (drop i ?t) \<and> Unmarshal_object json out = None)"
  proof (cases ?found)
    case True
    then have e: "extractJSON json raw =
        (if Unmarshal_object json ?js = None then Inr ?js else Inl InvalidJSONStructure)"
      by (intro extractJSON_found) simp_all
    show ?thesis
      unfolding pair[of "\<lambda>i j. out = take (j + 1 - i) (drop i ?t) \<and> Unmarshal_object json out = None"] e
      using True by auto
  next
    case False
    then have e: "extractJSON json raw = Inl NoJSONFound" by (rule extractJSON_not_found)
    show ?thesis
      unfolding pair[of "\<lambda>i j. out = take (j + 1 - i) (drop i ?t) \<and> Unmarshal_object json out = None"] e
      using False by blast
  qed
  show "extractJSON json raw = Inl err \<longleftrightarrow>
        (err = NoJSONFound
           \<and> \<not> (\<exists>i j. i < j \<and> j < length ?t \<and> ?t ! i = CHR ''{'' \<and> ?t ! j = CHR ''}''))
        \<or> (err = InvalidJSONStructure
           \<and> (\<exists>i j. firstBrace ?t i \<and> lastBrace ?t j \<and> i < j
                    \<and> Unmarshal_object json (take (j + 1 - i) (drop i ?t)) \<noteq> None))"
  proof (cases ?found)
    case True
    then have e: "extractJSON json raw =
        (if Unmarshal_object json ?js = None then Inr ?js else Inl InvalidJSONStructure)"
      by (intro extractJSON_found) simp_all
    show ?thesis
      unfolding pair[of "\<lambda>i j. Unmarshal_object json (take (j + 1 - i) (drop i ?t)) \<noteq> None"]
        brace_pair_exists e
      using True by auto
  next
    case False
    then have e: "extractJSON json raw = Inl NoJSONFound" by (rule extractJSON_not_found)
    show ?thesis
      unfolding pair[of "\<lambda>i j. Unmarshal_object json (take (j + 1 - i) (drop i ?t)) \<noteq> None"]
        brace_pair_exists e
      using False by auto
  qed
  show "fst (ParseRootCause json raw rc0) = None \<longleftrightarrow>
        (\<exists>jsonStr. extractJSON json raw = Inr jsonStr
                   \<and> fst (Unmarshal_RootCause json jsonStr rc0) = None)"
    by (cases "extractJSON json raw") (simp_all add: ParseRootCause_def)
  show "fst (ParseSolution json raw sol0) = None \<longleftrightarrow>
        (\<exists>jsonStr. extractJSON json raw = Inr jsonStr
                   \<and> fst (Unmarshal_Solution json jsonStr sol0) = None)"
    by (cases "extractJSON json raw") (simp_all add: ParseSolution_def)
  show "fst (ParseReframe json raw rq0) = None \<longleftrightarrow>
        (\<exists>jsonStr. extractJSON json raw = Inr jsonStr
                   \<and> fst (Unmarshal_Reframe json jsonStr rq0) = None)"
    by (cases "extractJSON json raw") (simp_all add: ParseReframe_def)
qed



lemma extractJSON_in_range:
  assumes "\<not> (Index t ''{'' = - 1 \<or> LastIndex t ''}'' = - 1 \<or> LastIndex t ''}'' \<le> Index t ''{'')"
  shows "0 \<le> Index t ''{'' \<and> Index t ''{'' \<le> LastIndex t ''}'' + 1
         \<and> LastIndex t ''}'' + 1 \<le> int (length t)"
proof -
  have m: "CHR ''{'' \<in> set t" "CHR ''}'' \<in> set t"
    using assms by (auto simp: Index_single LastIndex_single split: if_splits)
  show ?thesis
    using assms m lastOcc_props(1)[OF m(2)] by (simp add: Index_single LastIndex_single)
qed

theorem extractJSON_greedy_witness:
  \<open>extractJSON ToyJson ''  noise {"a":1} trailing  '' = Inr ''{"a":1}''
   \<and> (\<exists>i j. firstBrace (TrimSpace ''  noise {"a":1} trailing  '') i
           \<and> lastBrace (TrimSpace ''  noise {"a":1} trailing  '') j \<and> i < j
           \<and> ''{"a":1}'' = take (j + 1 - i) (drop i (TrimSpace ''  noise {"a":1} trailing  ''))
           \<and> Unmarshal_object ToyJson ''{"a":1}'' = None)
   \<and> extractJSON ToyJson ''{ {"a":1}'' = Inl InvalidJSONStructure
   \<and> (\<exists>i j. firstBrace (TrimSpace ''{ {"a":1}'') i \<and> lastBrace (TrimSpace ''{ {"a":1}'') j \<and> i < j
           \<and> Unmarshal_object ToyJson (take (j + 1 - i) (drop i (TrimSpace ''{ {"a":1}''))) \<noteq> None)
   \<and> extractJSON ToyJson ''} {'' = Inl NoJSONFound
   \<and> \<not> (\<exists>i j. i < j \<and> j < length (TrimSpace ''} {'')
             \<and> TrimSpace ''} {'' ! i = CHR ''{'' \<and> TrimSpace ''} {'' ! j = CHR ''}'')
   \<and> fst (ParseRootCause ToyJson ''  noise {"a":1} trailing  '' RootCauseResult_zero) = None\<close>
proof -
  have e1: \<open>extractJSON ToyJson ''  noise {"a":1} trailing  '' = Inr ''{"a":1}''\<close>
    by code_simp
  have e2: \<open>extractJSON ToyJson ''{ {"a":1}'' = Inl InvalidJSONStructure\<close>
    by code_simp
  have e3: \<open>extractJSON ToyJson ''} {'' = Inl NoJSONFound\<close>
    by code_simp
  have u: \<open>fst (Unmarshal_RootCause ToyJson ''{"a":1}'' RootCauseResult_zero) = None\<close>
    by code_simp
  note t1 = extractJSON_greedy[of ToyJson \<open>''  noise {"a":1} trailing  ''\<close> \<open>''{"a":1}''\<close>
      NoJSONFound RootCauseResult_zero SolutionResult_zero ReframedQuestion_zero]
  note t2 = extractJSON_greedy[of ToyJson \<open>''{ {"a":1}''\<close> \<open>''{"a":1}''\<close>
      InvalidJSONStructure RootCauseResult_zero SolutionResult_zero ReframedQuestion_zero]
  note t3 = extractJSON_greedy[of ToyJson \<open>''} {''\<close> \<open>''{"a":1}''\<close>
      NoJSONFound RootCauseResult_zero SolutionResult_zero ReframedQuestion_zero]
  have a1: \<open>\<exists>i j. firstBrace (TrimSpace ''  noise {"a":1} trailing  '') i
           \<and> lastBrace (TrimSpace ''  noise {"a":1} trailing  '') j \<and> i < j
           \<and> ''{"a":1}'' = take (j + 1 - i) (drop i (TrimSpace ''  noise {"a":1} trailing  ''))
           \<and> Unmarshal_object ToyJson ''{"a":1}'' = None\<close>
    using t1 e1 by blast
  have a2: \<open>\<exists>i j. firstBrace (TrimSpace ''{ {"a":1}'') i \<and> lastBrace (TrimSpace ''{ {"a":1}'') j \<and> i < j
           \<and> Unmarshal_object ToyJson (take (j + 1 - i) (drop i (TrimSpace ''{ {"a":1}''))) \<noteq> None\<close>
    using t2 e2 by blast
  have a3: \<open>\<not> (\<exists>i j. i < j \<and> j < length (TrimSpace ''} {'')
             \<and> TrimSpace ''} {'' ! i = CHR ''{'' \<and> TrimSpace ''} {'' ! j = CHR ''}'')\<close>
    using t3 e3 by blast
  have a4: \<open>fst (ParseRootCause ToyJson ''  noise {"a":1} trailing  '' RootCauseResult_zero) = None\<close>
    using t1 e1 u by blast
  show ?thesis using e1 e2 e3 a1 a2 a3 a4 by blast
qed


section \<open>Properties of the vector store and of recall\<close>

lemma scan_rows_length:
  "scan_rows rows acc = Inr docs \<Longrightarrow> length docs = length acc + length rows"
  by (induction rows acc rule: scan_rows.induct) auto

lemma PgVectorStore_Search_clamp:
  "limit \<le> 0 \<Longrightarrow> PgVectorStore_Search p vec limit w = PgVectorStore_Search p vec 5 w"
  by (simp add: PgVectorStore_Search_def)

lemma Recall_Pg_clamp:
  assumes v: "Mem_vector m = PgVectorStore_iface p" and l: "limit \<le> 0"
  shows "Recall m query limit w = Recall m query 5 w"
proof -
  have s: "Store_Search (Mem_vector m) = PgVectorStore_Search p"
    by (simp add: v PgVectorStore_iface_def)
  show ?thesis
    unfolding Recall_def s
    by (cases "Embed query") (simp_all add: PgVectorStore_Search_clamp[OF l])
qed

lemma PgVectorStore_Search_length:
  assumes h: "\<forall>tbl v n w rows w'. QueryContext (Pg_db p) (SelectNearest tbl v n) w = (Inr rows, w')
                 \<longrightarrow> length rows \<le> nat n"
    and s: "PgVectorStore_Search p vec limit w = (Inr docs, w')"
  shows "length docs \<le> nat (if limit \<le> 0 then 5 else limit)"
proof -
  let ?n = "if limit \<le> 0 then 5 else limit"
  have ne: "length vec \<noteq> 0" using s by (auto simp: PgVectorStore_Search_def)
  obtain r w1 where q: "QueryContext (Pg_db p) (SelectNearest (Pg_table p) vec ?n) w = (r, w1)"
    by (cases "QueryContext (Pg_db p) (SelectNearest (Pg_table p) vec ?n) w") auto
  show ?thesis
  proof (cases r)
    case (Inl e)
    then show ?thesis using s ne q by (simp add: PgVectorStore_Search_def Let_def)
  next
    case (Inr rows)
    then have sc: "scan_rows rows [] = Inr docs"
      using s ne q by (simp add: PgVectorStore_Search_def Let_def)
    have "length rows \<le> nat ?n" using h q Inr by blast
    then show ?thesis using scan_rows_length[OF sc] by simp
  qed
qed

lemma Recall_documents:
  assumes "Recall m query limit w = (Inr rm, w')"
  shows "\<exists>emb. Store_Search (Mem_vector m) emb limit w = (Inr (RM_Documents rm), w')"
  using assms
  by (auto simp: Recall_def Let_def split: if_splits sum.splits prod.splits)

text \<open>
  Claim C7, as amended. \<open>Store\<close> fails with the missing-id error when the identifier is
  empty and with the missing-vector error when the embedding is empty, without touching
  the database; otherwise it sends one upsert of the document and returns what the
  database reports (so it also fails when the database does). \<open>Search\<close> fails on an
  empty query vector, and with a non-positive limit it behaves as with limit 5; so a
  \<open>Recall\<close> over this store with limit 0 or -3 is the \<open>Recall\<close> with limit 5 and,
  when the database honours \<open>LIMIT\<close>, returns at most 5 documents.
\<close>

theorem PgVectorStore_contract:
  "(Doc_ID doc = [] \<longrightarrow> PgVectorStore_Store p doc w = (Some MissingDocumentID, w))
   \<and> (Doc_ID doc \<noteq> [] \<and> Doc_Vector doc = [] \<longrightarrow>
        PgVectorStore_Store p doc w = (Some MissingEmbeddingVector, w))
   \<and> (Doc_ID doc \<noteq> [] \<and> Doc_Vector doc \<noteq> [] \<longrightarrow>
        PgVectorStore_Store p doc w =
          ExecContext (Pg_db p)
            (Upsert (Pg_table p) (Doc_ID doc) (Doc_Content doc) (Doc_Vector doc) (Doc_Meta doc)) w)
   \<and> (vec = [] \<longrightarrow> PgVectorStore_Search p vec limit w = (Inl EmptyQueryVector, w))
   \<and> (limit \<le> 0 \<longrightarrow> PgVectorStore_Search p vec limit w = PgVectorStore_Search p vec 5 w)
   \<and> (Mem_vector m = PgVectorStore_iface p \<and> limit \<le> 0 \<longrightarrow>
        Recall m query limit w = Recall m query 5 w)
   \<and> (Mem_vector m = PgVectorStore_iface p \<and> limit \<le> 0
        \<and> (\<forall>tbl v n w0 rows w1.
              QueryContext (Pg_db p) (SelectNearest tbl v n) w0 = (Inr rows, w1)
              \<longrightarrow> length rows \<le> nat n)
        \<and> Recall m query limit w = (Inr rm, w') \<longrightarrow>
        length (RM_Documents rm) \<le> 5)"
proof (intro conjI impI)
  show "Doc_ID doc = [] \<Longrightarrow> PgVectorStore_Store p doc w = (Some MissingDocumentID, w)"
    by (simp add: PgVectorStore_Store_def)
  show "Doc_ID doc \<noteq> [] \<and> Doc_Vector doc = [] \<Longrightarrow>
        PgVectorStore_Store p doc w = (Some MissingEmbeddingVector, w)"
    by (simp add: PgVectorStore_Store_def)
  show "Doc_ID doc \<noteq> [] \<and> Doc_Vector doc \<noteq> [] \<Longrightarrow>
        PgVectorStore_Store p doc w =
          ExecContext (Pg_db p)
            (Upsert (Pg_table p) (Doc_ID doc) (Doc_Content doc) (Doc_Vector doc) (Doc_Meta doc)) w"
    by (simp add: PgVectorStore_Store_def)
  show "vec = [] \<Longrightarrow> PgVectorStore_Search p vec limit w = (Inl EmptyQueryVector, w)"
    by (simp add: PgVectorStore_Search_def)
  show "limit \<le> 0 \<Longrightarrow> PgVectorStore_Search p vec limit w = PgVectorStore_Search p vec 5 w"
    by (rule PgVectorStore_Search_clamp)
  show "Mem_vector m = PgVectorStore_iface p \<and> limit \<le> 0 \<Longrightarrow>
        Recall m query limit w = Recall m query 5 w"
    using Recall_Pg_clamp[of m p limit query w] by simp
next
  assume a: "Mem_vector m = PgVectorStore_iface p \<and> limit \<le> 0
        \<and> (\<forall>tbl v n w0 rows w1.
              QueryContext (Pg_db p) (SelectNearest tbl v n) w0 = (Inr rows, w1)
              \<longrightarrow> length rows \<le> nat n)
        \<and> Recall m query limit w = (Inr rm, w')"
  then have v: "Store_Search (Mem_vector m) = PgVectorStore_Search p"
    by (simp add: PgVectorStore_iface_def)
  from a have h: "\<forall>tbl v n w0 rows w1.
              QueryContext (Pg_db p) (SelectNearest tbl v n) w0 = (Inr rows, w1)
              \<longrightarrow> length rows \<le> nat n" by blast
  from a obtain emb where
    s: "PgVectorStore_Search p emb limit w = (Inr (RM_Documents rm), w')"
    using Recall_documents[of m query limit w rm w'] v by auto
  have "length (RM_Documents rm) \<le> nat (if limit \<le> 0 then 5 else limit)"
    by (rule PgVectorStore_Search_length[OF h s])
  then show "length (RM_Documents rm) \<le> 5" using a by simp
qed

text \<open>
  The claim as first stated, that \<open>Store\<close> fails exactly when the identifier or the
  embedding is empty, does not hold: a well-formed document is refused when the
  database is down.
\<close>

theorem Store_fails_on_database_error:
  "\<not> (\<forall>(p :: unit PgVectorStore) doc w.
         (fst (PgVectorStore_Store p doc w) \<noteq> None) = (Doc_ID doc = [] \<or> Doc_Vector doc = []))"
proof
  assume a: "\<forall>(p :: unit PgVectorStore) doc w.
         (fst (PgVectorStore_Store p doc w) \<noteq> None) = (Doc_ID doc = [] \<or> Doc_Vector doc = [])"
  let ?doc = "\<lparr>Doc_ID = ''d1'', Doc_Content = ''c'', Doc_Vector = [1], Doc_Meta = Map.empty\<rparr>"
  have "fst (PgVectorStore_Store (NewPgVectorStore DownDB 384) ?doc ())
          = Some (Opaque ''connection refused'')"
    by (simp add: PgVectorStore_Store_def NewPgVectorStore_def DownDB_def)
  moreover have "(fst (PgVectorStore_Store (NewPgVectorStore DownDB 384) ?doc ()) \<noteq> None)
      = (Doc_ID ?doc = [] \<or> Doc_Vector ?doc = [])"
    using a by blast
  ultimately show False by simp
qed

lemma Embed_nonempty: "text \<noteq> [] \<Longrightarrow> \<exists>v. Embed text = Inr v \<and> v \<noteq> []"
  unfolding Embed_def by (simp del: upt_rec_numeral)

lemma scan_rows_ids:
  "scan_rows (map (\<lambda>r. Inr (fst r, fst (snd r), b)) rs) acc = Inr docs \<Longrightarrow>
   map Doc_ID docs = map Doc_ID acc @ map fst rs"
  by (induction rs arbitrary: acc) auto

lemma scan_rows_ok:
  "\<exists>docs. scan_rows (map (\<lambda>r. Inr (fst r, fst (snd r), b)) rs) acc = Inr docs"
  by (induction rs arbitrary: acc) auto

lemma Recall_ExMemory_seven:
  assumes l: "limit \<le> 0"
  shows "\<exists>rm w'. Recall ExMemory ''q'' limit ExWorld_seven = (Inr rm, w')
          \<and> map Doc_ID (RM_Documents rm) = [''d1'', ''d2'', ''d3'', ''d4'', ''d5'']"
proof -
  obtain v where v: "Embed ''q'' = Inr v" "v \<noteq> []" using Embed_nonempty[of "''q''"] by auto
  let ?rows = "map (\<lambda>r. Inr (fst r, fst (snd r), ''{}'')) (take 5 (ex_rows ExWorld_seven))
                 :: ScanRow list"
  obtain docs where d: "scan_rows ?rows [] = Inr docs" using scan_rows_ok[of "''{}''"] by blast
  have ids: "map Doc_ID docs = [''d1'', ''d2'', ''d3'', ''d4'', ''d5'']"
    using scan_rows_ids[OF d] by (simp add: ExWorld_seven_def ExWorld_empty_def)
  have s: "Store_Search (Mem_vector ExMemory) v limit ExWorld_seven = (Inr docs, ExWorld_seven)"
    using v(2) l d
    by (simp add: ExMemory_def PgVectorStore_iface_def PgVectorStore_Search_def
          NewPgVectorStore_def ExDB_def)
  have "Recall ExMemory ''q'' limit ExWorld_seven
          = (Inr \<lparr>RM_Documents = docs,
                  RM_Context = foldl (\<lambda>acc d. acc @ Doc_Content d @ [CHR 0x0A]) [] docs\<rparr>,
             ExWorld_seven)"
    by (simp add: Recall_def v(1) s)
  then show ?thesis using ids by simp
qed

theorem PgVectorStore_contract_witness:
  "PgVectorStore_Store (NewPgVectorStore ExDB 384)
       \<lparr>Doc_ID = [], Doc_Content = ''c'', Doc_Vector = [1], Doc_Meta = Map.empty\<rparr> ExWorld_empty
     = (Some MissingDocumentID, ExWorld_empty)
   \<and> PgVectorStore_Store (NewPgVectorStore ExDB 384)
       \<lparr>Doc_ID = ''d1'', Doc_Content = ''c'', Doc_Vector = [], Doc_Meta = Map.empty\<rparr> ExWorld_empty
     = (Some MissingEmbeddingVector, ExWorld_empty)
   \<and> PgVectorStore_Store (NewPgVectorStore ExDB 384)
       \<lparr>Doc_ID = ''d1'', Doc_Content = ''c'', Doc_Vector = [1], Doc_Meta = Map.empty\<rparr> ExWorld_empty
     = (None, ExWorld_empty\<lparr>ex_rows := [(''d1'', ''c'', [1])]\<rparr>)
   \<and> PgVectorStore_Search (NewPgVectorStore ExDB 384) [] 3 ExWorld_seven
     = (Inl EmptyQueryVector, ExWorld_seven)
   \<and> (\<exists>rm w'. Recall ExMemory ''q'' 0 ExWorld_seven = (Inr rm, w')
          \<and> length (RM_Documents rm) \<le> 5
          \<and> map Doc_ID (RM_Documents rm) = [''d1'', ''d2'', ''d3'', ''d4'', ''d5''])
   \<and> (\<exists>rm w'. Recall ExMemory ''q'' (- 3) ExWorld_seven = (Inr rm, w')
          \<and> length (RM_Documents rm) \<le> 5
          \<and> map Doc_ID (RM_Documents rm) = [''d1'', ''d2'', ''d3'', ''d4'', ''d5''])"
proof -
  let ?p = "NewPgVectorStore ExDB 384"
  let ?d0 = "\<lparr>Doc_ID = [], Doc_Content = ''c'', Doc_Vector = [1], Doc_Meta = Map.empty\<rparr>"
  let ?d1 = "\<lparr>Doc_ID = ''d1'', Doc_Content = ''c'', Doc_Vector = [], Doc_Meta = Map.empty\<rparr>"
  let ?d2 = "\<lparr>Doc_ID = ''d1'', Doc_Content = ''c'', Doc_Vector = [1], Doc_Meta = Map.empty\<rparr>"
  have v: "Mem_vector ExMemory = PgVectorStore_iface ?p" by (simp add: ExMemory_def)
  have h: "\<forall>tbl v n w0 rows w1.
              QueryContext (Pg_db ?p) (SelectNearest tbl v n) w0 = (Inr rows, w1)
              \<longrightarrow> length rows \<le> nat n"
    by (auto simp: NewPgVectorStore_def ExDB_def)
  have 1: "PgVectorStore_Store ?p ?d0 ExWorld_empty = (Some MissingDocumentID, ExWorld_empty)"
    using PgVectorStore_contract[of ?d0 ?p ExWorld_empty] by simp
  have 2: "PgVectorStore_Store ?p ?d1 ExWorld_empty = (Some MissingEmbeddingVector, ExWorld_empty)"
    using PgVectorStore_contract[of ?d1 ?p ExWorld_empty] by simp
  have 3: "PgVectorStore_Store ?p ?d2 ExWorld_empty
             = (None, ExWorld_empty\<lparr>ex_rows := [(''d1'', ''c'', [1])]\<rparr>)"
    using PgVectorStore_contract[of ?d2 ?p ExWorld_empty]
    by (simp add: NewPgVectorStore_def ExDB_def ExWorld_empty_def)
  have 4: "PgVectorStore_Search ?p [] 3 ExWorld_seven = (Inl EmptyQueryVector, ExWorld_seven)"
    using PgVectorStore_contract[of ?d2 ?p ExWorld_seven "[]" 3] by simp
  obtain rm0 w0 where r0: "Recall ExMemory ''q'' 0 ExWorld_seven = (Inr rm0, w0)"
    and i0: "map Doc_ID (RM_Documents rm0) = [''d1'', ''d2'', ''d3'', ''d4'', ''d5'']"
    using Recall_ExMemory_seven[of 0] by auto
  obtain rm3 w3 where r3: "Recall ExMemory ''q'' (- 3) ExWorld_seven = (Inr rm3, w3)"
    and i3: "map Doc_ID (RM_Documents rm3) = [''d1'', ''d2'', ''d3'', ''d4'', ''d5'']"
    using Recall_ExMemory_seven[of "- 3"] by auto
  have l0: "length (RM_Documents rm0) \<le> 5"
    using PgVectorStore_contract[of ?d2 ?p ExWorld_seven "[]" 0 ExMemory "''q''" rm0 w0] v h r0
    by simp
  have l3: "length (RM_Documents rm3) \<le> 5"
    using PgVectorStore_contract[of ?d2 ?p ExWorld_seven "[]" "- 3" ExMemory "''q''" rm3 w3] v h r3
    by simp
  have a0: "\<exists>rm w'. Recall ExMemory ''q'' 0 ExWorld_seven = (Inr rm, w')
          \<and> length (RM_Documents rm) \<le> 5
          \<and> map Doc_ID (RM_Documents rm) = [''d1'', ''d2'', ''d3'', ''d4'', ''d5'']"
    using r0 l0 i0 by (intro exI[of _ rm0] exI[of _ w0] conjI)
  have a3: "\<exists>rm w'. Recall ExMemory ''q'' (- 3) ExWorld_seven = (Inr rm, w')
          \<and> length (RM_Documents rm) \<le> 5
          \<and> map Doc_ID (RM_Documents rm) = [''d1'', ''d2'', ''d3'', ''d4'', ''d5'']"
    using r3 l3 i3 by (intro exI[of _ rm3] exI[of _ w3] conjI)
  show ?thesis
    apply (intro conjI)
         apply (rule 1)
        apply (rule 2)
       apply (rule 3)
      apply (rule 4)
     apply (rule a0)
    apply (rule a3)
    done
qed


section \<open>Properties of the memory engine\<close>

subsection \<open>Appending to a session\<close>

lemma SessionMemory_rewritten:
  "(r :: SessionMemory)\<lparr>SM_SessionID := a, SM_Messages := b, SM_UpdatedAt := c\<rparr>
     = \<lparr>SM_SessionID = a, SM_Messages = b, SM_UpdatedAt = c\<rparr>"
  by (cases r) simp

text \<open>
  Claim C8. \<open>AppendSession\<close> returns an error exactly when the session id is empty (and
  then does nothing). For a non-empty id it reads the key \<open>session:<id>\<close>, takes the
  transcript decoded from what it read (the empty transcript when nothing was read),
  appends one message with the given role and content and the time of the call, and
  writes the result back under the same key with a time to live of 24 hours; it returns
  no error whatever the read, the decode and the write report.
\<close>

theorem AppendSession_best_effort:
  "((fst (AppendSession clk json m sid role content w) \<noteq> None) = (sid = []))
   \<and> (sid = [] \<longrightarrow> AppendSession clk json m sid role content w = (Some MissingSessionID, w))
   \<and> (sid \<noteq> [] \<longrightarrow>
        AppendSession clk json m sid role content w =
          (let got = Redis_Get (Mem_redis m) (''session:'' @ sid) w;
               data = fst (fst got);
               w1 = snd got;
               loaded = (if data = [] then SessionMemory_zero
                         else snd (Unmarshal_Session json data SessionMemory_zero));
               msg = \<lparr>Msg_Role = role, Msg_Content = content, Msg_Timestamp = Now clk w\<rparr>;
               rewritten = \<lparr>SM_SessionID = sid, SM_Messages = SM_Messages loaded @ [msg],
                             SM_UpdatedAt = Now clk w1\<rparr>
           in (None, snd (Redis_Set (Mem_redis m) (''session:'' @ sid)
                            (Marshal_Session json rewritten) 86400000000000 w1))))"
proof (intro conjI impI)
  show "(fst (AppendSession clk json m sid role content w) \<noteq> None) = (sid = [])"
    by (simp add: AppendSession_def Let_def split: prod.split)
  show "sid = [] \<Longrightarrow> AppendSession clk json m sid role content w = (Some MissingSessionID, w)"
    by (simp add: AppendSession_def)
  assume ne: "sid \<noteq> []"
  obtain data ge w1 where g: "Redis_Get (Mem_redis m) (''session:'' @ sid) w = ((data, ge), w1)"
    by (cases "Redis_Get (Mem_redis m) (''session:'' @ sid) w") auto
  have h: "24 * Hour = 86400000000000" by (simp add: Hour_def Minute_def)
  show "AppendSession clk json m sid role content w =
          (let got = Redis_Get (Mem_redis m) (''session:'' @ sid) w;
               data = fst (fst got);
               w1 = snd got;
               loaded = (if data = [] then SessionMemory_zero
                         else snd (Unmarshal_Session json data SessionMemory_zero));
               msg = \<lparr>Msg_Role = role, Msg_Content = content, Msg_Timestamp = Now clk w\<rparr>;
               rewritten = \<lparr>SM_SessionID = sid, SM_Messages = SM_Messages loaded @ [msg],
                             SM_UpdatedAt = Now clk w1\<rparr>
           in (None, snd (Redis_Set (Mem_redis m) (''session:'' @ sid)
                            (Marshal_Session json rewritten) 86400000000000 w1)))"
  proof (cases "data = []")
    case True
    obtain se w2 where s: "Redis_Set (Mem_redis m) (''session:'' @ sid)
        (Marshal_Session json \<lparr>SM_SessionID = sid,
           SM_Messages = SM_Messages SessionMemory_zero
              @ [\<lparr>Msg_Role = role, Msg_Content = content, Msg_Timestamp = Now clk w\<rparr>],
           SM_UpdatedAt = Now clk w1\<rparr>) 86400000000000 w1 = (se, w2)"
      by fastforce
    show ?thesis
      using ne True g[simplified] s[simplified]
      by (simp add: AppendSession_def Let_def h SessionMemory_rewritten)
  next
    case False
    obtain se w2 where s: "Redis_Set (Mem_redis m) (''session:'' @ sid)
        (Marshal_Session json \<lparr>SM_SessionID = sid,
           SM_Messages = SM_Messages (snd (Unmarshal_Session json data SessionMemory_zero))
              @ [\<lparr>Msg_Role = role, Msg_Content = content, Msg_Timestamp = Now clk w\<rparr>],
           SM_UpdatedAt = Now clk w1\<rparr>) 86400000000000 w1 = (se, w2)"
      by fastforce
    show ?thesis
      using ne False g[simplified] s[simplified]
      by (simp add: AppendSession_def Let_def h SessionMemory_rewritten)
  qed
qed

theorem AppendSession_best_effort_witness:
  "AppendSession ExClock ToyJson ExMemory [] ''user'' ''hi'' ExWorld_empty
     = (Some MissingSessionID, ExWorld_empty)
   \<and> AppendSession ExClock ToyJson ExMemory ''s1'' ''user'' ''hi'' ExWorld_empty
     = (None, ExWorld_empty\<lparr>ex_kv := [(''session:s1'', ''user:hi;'', 86400000000000)]\<rparr>)
   \<and> AppendSession ExClock ToyJson ExMemory ''s1'' ''assistant'' ''yo''
       (ExWorld_empty\<lparr>ex_kv := [(''session:s1'', ''user:hi;'', 86400000000000)]\<rparr>)
     = (None, ExWorld_empty\<lparr>ex_kv :=
          [(''session:s1'', ''user:hi;assistant:yo;'', 86400000000000)]\<rparr>)
   \<and> AppendSession ExClock ToyJson (ExMemory\<lparr>Mem_redis := DownRedis\<rparr>) ''s1'' ''user'' ''hi''
       ExWorld_empty
     = (None, ExWorld_empty)"
proof -
  let ?w1 = "ExWorld_empty\<lparr>ex_kv := [(''session:s1'', ''user:hi;'', 86400000000000)]\<rparr>"
  have 1: "AppendSession ExClock ToyJson ExMemory [] ''user'' ''hi'' ExWorld_empty
     = (Some MissingSessionID, ExWorld_empty)"
    using AppendSession_best_effort[of ExClock ToyJson ExMemory "[]" "''user''" "''hi''" ExWorld_empty]
    by simp
  have 2: "AppendSession ExClock ToyJson ExMemory ''s1'' ''user'' ''hi'' ExWorld_empty = (None, ?w1)"
    using AppendSession_best_effort[of ExClock ToyJson ExMemory "''s1''" "''user''" "''hi''" ExWorld_empty]
    by (simp add: Let_def ExMemory_def ExRedis_def ExWorld_empty_def ToyJson_def ExClock_def
          SessionMemory_zero_def)
  have 3: "AppendSession ExClock ToyJson ExMemory ''s1'' ''assistant'' ''yo'' ?w1
     = (None, ExWorld_empty\<lparr>ex_kv :=
          [(''session:s1'', ''user:hi;assistant:yo;'', 86400000000000)]\<rparr>)"
    using AppendSession_best_effort[of ExClock ToyJson ExMemory "''s1''" "''assistant''" "''yo''" ?w1]
    by (simp add: Let_def ExMemory_def ExRedis_def ExWorld_empty_def ToyJson_def ExClock_def
          SessionMemory_zero_def toyMessages_def)
  have 4: "AppendSession ExClock ToyJson (ExMemory\<lparr>Mem_redis := DownRedis\<rparr>) ''s1'' ''user'' ''hi''
       ExWorld_empty = (None, ExWorld_empty)"
    using AppendSession_best_effort[of ExClock ToyJson "ExMemory\<lparr>Mem_redis := DownRedis\<rparr>"
        "''s1''" "''user''" "''hi''" ExWorld_empty]
    by (simp add: Let_def DownRedis_def)
  show ?thesis
    apply (intro conjI)
       apply (rule 1)
      apply (rule 2)
     apply (rule 3)
    apply (rule 4)
    done
qed

subsection \<open>Hybrid context\<close>

lemma foldl_append_concat:
  "foldl (\<lambda>acc x. acc @ f x) a xs = a @ concat (map f xs)"
  by (induction xs arbitrary: a) simp_all

lemma Recall_context:
  "Recall m query limit w = (Inr r, w2) \<Longrightarrow>
   RM_Context r = concat (map (\<lambda>d. Doc_Content d @ [CHR 0x0A]) (RM_Documents r))"
  using foldl_append_concat[of "\<lambda>d. Doc_Content d @ [CHR 0x0A]" "[]"]
  by (auto simp: Recall_def Let_def split: if_splits sum.splits prod.splits)

lemma GetSession_absent:
  "fst (fst (Redis_Get (Mem_redis m) (''session:'' @ sid) w)) = [] \<Longrightarrow>
   fst (GetSession json m sid w) = Inl SessionNotFound"
  by (cases "Redis_Get (Mem_redis m) (''session:'' @ sid) w")
     (auto simp: GetSession_def Let_def)

text \<open>
  Claim C5. \<open>HybridContext\<close> never returns an error. Its text is the transcript lines
  \<open>role: content\<close> of the session when the lookup succeeds and nothing when it fails,
  followed by the header \<open>--- Semantic Memory ---\<close> and the recalled context when the
  recall succeeds and by nothing when it fails. For a session id with nothing stored
  and a successful recall it is the header followed by the recalled documents' contents,
  one per line.
\<close>

theorem HybridContext_never_fails:
  "snd (fst (HybridContext json m sid query limit w)) = None
   \<and> HybridContext json m sid query limit w =
       (let got = GetSession json m sid w;
            recalled = Recall m query limit (snd got)
        in (((case fst got of
                Inl err \<Rightarrow> []
              | Inr session \<Rightarrow>
                  concat (map (\<lambda>msg. Msg_Role msg @ '': '' @ Msg_Content msg @ [CHR 0x0A])
                            (SM_Messages session)))
             @ (case fst recalled of
                  Inl err \<Rightarrow> []
                | Inr recall \<Rightarrow>
                    [CHR 0x0A] @ ''--- Semantic Memory ---'' @ [CHR 0x0A] @ RM_Context recall),
             None),
            snd recalled))
   \<and> (fst (fst (Redis_Get (Mem_redis m) (''session:'' @ sid) w)) = []
        \<and> Recall m query limit (snd (GetSession json m sid w)) = (Inr recall, w2) \<longrightarrow>
        HybridContext json m sid query limit w =
          (([CHR 0x0A] @ ''--- Semantic Memory ---'' @ [CHR 0x0A] @ RM_Context recall, None), w2)
        \<and> RM_Context recall
            = concat (map (\<lambda>d. Doc_Content d @ [CHR 0x0A]) (RM_Documents recall)))"
proof -
  obtain got w1 where g: "GetSession json m sid w = (got, w1)"
    by (cases "GetSession json m sid w") auto
  obtain recalled w2' where r: "Recall m query limit w1 = (recalled, w2')"
    by (cases "Recall m query limit w1") auto
  have eq: "HybridContext json m sid query limit w =
       (let got = GetSession json m sid w;
            recalled = Recall m query limit (snd got)
        in (((case fst got of
                Inl err \<Rightarrow> []
              | Inr session \<Rightarrow>
                  concat (map (\<lambda>msg. Msg_Role msg @ '': '' @ Msg_Content msg @ [CHR 0x0A])
                            (SM_Messages session)))
             @ (case fst recalled of
                  Inl err \<Rightarrow> []
                | Inr recall \<Rightarrow>
                    [CHR 0x0A] @ ''--- Semantic Memory ---'' @ [CHR 0x0A] @ RM_Context recall),
             None),
            snd recalled))"
    by (cases got; cases recalled)
       (simp_all add: HybridContext_def Let_def g r foldl_append_concat)
  have none: "snd (fst (HybridContext json m sid query limit w)) = None"
    by (simp add: HybridContext_def Let_def g r)
  have absent: "fst (fst (Redis_Get (Mem_redis m) (''session:'' @ sid) w)) = []
        \<and> Recall m query limit (snd (GetSession json m sid w)) = (Inr recall, w2) \<longrightarrow>
        HybridContext json m sid query limit w =
          (([CHR 0x0A] @ ''--- Semantic Memory ---'' @ [CHR 0x0A] @ RM_Context recall, None), w2)
        \<and> RM_Context recall
            = concat (map (\<lambda>d. Doc_Content d @ [CHR 0x0A]) (RM_Documents recall))"
  proof (intro impI conjI)
    assume a: "fst (fst (Redis_Get (Mem_redis m) (''session:'' @ sid) w)) = []
        \<and> Recall m query limit (snd (GetSession json m sid w)) = (Inr recall, w2)"
    then have a1: "fst (fst (Redis_Get (Mem_redis m) (''session:'' @ sid) w)) = []"
      by (rule conjunct1)
    have gi: "fst (GetSession json m sid w) = Inl SessionNotFound"
      by (rule GetSession_absent[OF a1])
    from a have rc: "Recall m query limit (snd (GetSession json m sid w)) = (Inr recall, w2)"
      by (rule conjunct2)
    show "HybridContext json m sid query limit w =
          (([CHR 0x0A] @ ''--- Semantic Memory ---'' @ [CHR 0x0A] @ RM_Context recall, None), w2)"
      unfolding eq by (simp add: Let_def gi rc)
    show "RM_Context recall
            = concat (map (\<lambda>d. Doc_Content d @ [CHR 0x0A]) (RM_Documents recall))"
      by (rule Recall_context[OF rc])
  qed
  show ?thesis
    apply (intro conjI)
      apply (rule none)
     apply (rule eq)
    apply (rule absent)
    done
qed

lemma scan_rows_contents:
  "scan_rows (map (\<lambda>r. Inr (fst r, fst (snd r), b)) rs) acc = Inr docs \<Longrightarrow>
   map Doc_Content docs = map Doc_Content acc @ map (\<lambda>r. fst (snd r)) rs"
  by (induction rs arbitrary: acc) auto

lemma Recall_ExMemory_three:
  "\<exists>rm. Recall ExMemory ''q'' 3 ExWorld_seven = (Inr rm, ExWorld_seven)
        \<and> map Doc_Content (RM_Documents rm) = [''one'', ''two'', ''three'']"
proof -
  obtain v where v: "Embed ''q'' = Inr v" "v \<noteq> []" using Embed_nonempty[of "''q''"] by auto
  let ?rows = "map (\<lambda>r. Inr (fst r, fst (snd r), ''{}'')) (take 3 (ex_rows ExWorld_seven))
                 :: ScanRow list"
  obtain docs where d: "scan_rows ?rows [] = Inr docs" using scan_rows_ok[of "''{}''"] by blast
  have c: "map Doc_Content docs = [''one'', ''two'', ''three'']"
    using scan_rows_contents[OF d] by (simp add: ExWorld_seven_def ExWorld_empty_def)
  have s: "Store_Search (Mem_vector ExMemory) v 3 ExWorld_seven = (Inr docs, ExWorld_seven)"
    using v(2) d
    by (simp add: ExMemory_def PgVectorStore_iface_def PgVectorStore_Search_def
          NewPgVectorStore_def ExDB_def)
  have "Recall ExMemory ''q'' 3 ExWorld_seven
          = (Inr \<lparr>RM_Documents = docs,
                  RM_Context = foldl (\<lambda>acc d. acc @ Doc_Content d @ [CHR 0x0A]) [] docs\<rparr>,
             ExWorld_seven)"
    by (simp add: Recall_def v(1) s)
  then show ?thesis using c by simp
qed

theorem HybridContext_never_fails_witness:
  "HybridContext ToyJson ExMemory ''nosuch'' ''q'' 3 ExWorld_seven
     = (([CHR 0x0A] @ ''--- Semantic Memory ---'' @ [CHR 0x0A]
          @ ''one'' @ [CHR 0x0A] @ ''two'' @ [CHR 0x0A] @ ''three'' @ [CHR 0x0A], None),
        ExWorld_seven)
   \<and> HybridContext ToyJson ExMemory ''s1'' [] 3
       (ExWorld_empty\<lparr>ex_kv := [(''session:s1'', ''user:hi;assistant:yo;'', 86400000000000)]\<rparr>)
     = ((''user: hi'' @ [CHR 0x0A] @ ''assistant: yo'' @ [CHR 0x0A], None),
        ExWorld_empty\<lparr>ex_kv := [(''session:s1'', ''user:hi;assistant:yo;'', 86400000000000)]\<rparr>)"
proof -
  obtain rm where rm: "Recall ExMemory ''q'' 3 ExWorld_seven = (Inr rm, ExWorld_seven)"
    and c: "map Doc_Content (RM_Documents rm) = [''one'', ''two'', ''three'']"
    using Recall_ExMemory_three by auto
  have g: "Redis_Get (Mem_redis ExMemory) (''session:'' @ ''nosuch'') ExWorld_seven
             = (([], Some (Opaque ''redis: nil'')), ExWorld_seven)"
    by (simp add: ExMemory_def ExRedis_def ExWorld_seven_def ExWorld_empty_def)
  have gs: "GetSession ToyJson ExMemory ''nosuch'' ExWorld_seven = (Inl SessionNotFound, ExWorld_seven)"
    using g by (simp add: GetSession_def Let_def)
  have cc: "concat (map (\<lambda>d. Doc_Content d @ [CHR 0x0A]) (RM_Documents rm))
              = concat (map (\<lambda>c. c @ [CHR 0x0A]) (map Doc_Content (RM_Documents rm)))"
    by (simp add: comp_def)
  have 1: "HybridContext ToyJson ExMemory ''nosuch'' ''q'' 3 ExWorld_seven
     = (([CHR 0x0A] @ ''--- Semantic Memory ---'' @ [CHR 0x0A]
          @ ''one'' @ [CHR 0x0A] @ ''two'' @ [CHR 0x0A] @ ''three'' @ [CHR 0x0A], None),
        ExWorld_seven)"
    using HybridContext_never_fails[of ToyJson ExMemory "''nosuch''" "''q''" 3 ExWorld_seven rm
            ExWorld_seven] g gs rm
    by (simp add: cc c)
  let ?w = "ExWorld_empty\<lparr>ex_kv := [(''session:s1'', ''user:hi;assistant:yo;'', 86400000000000)]\<rparr>"
  have g2: "GetSession ToyJson ExMemory ''s1'' ?w
      = (Inr \<lparr>SM_SessionID = [], SM_Messages =
               [\<lparr>Msg_Role = ''user'', Msg_Content = ''hi'', Msg_Timestamp = 0\<rparr>,
                \<lparr>Msg_Role = ''assistant'', Msg_Content = ''yo'', Msg_Timestamp = 0\<rparr>],
              SM_UpdatedAt = 0\<rparr>, ?w)"
    by (simp add: GetSession_def Let_def ExMemory_def ExRedis_def ExWorld_empty_def ToyJson_def
          SessionMemory_zero_def toyMessages_def)
  have r2: "Recall ExMemory [] 3 ?w = (Inl EmptyQuery, ?w)"
    by (simp add: Recall_def)
  have 2: "HybridContext ToyJson ExMemory ''s1'' [] 3 ?w
     = ((''user: hi'' @ [CHR 0x0A] @ ''assistant: yo'' @ [CHR 0x0A], None), ?w)"
    using HybridContext_never_fails[of ToyJson ExMemory "''s1''" "[]" 3 ?w rm ExWorld_seven]
    by (simp add: Let_def g2 r2)
  show ?thesis
    apply (intro conjI)
     apply (rule 1)
    apply (rule 2)
    done
qed

end
